theory Spec2Isabelle
  imports Main
begin

section \<open>Configuration of release.sh\<close>

text \<open>The five configuration variables set at the top of the script (lines 5 to 9).\<close>

definition FRONTEND_IMAGE_NAME :: string where
  "FRONTEND_IMAGE_NAME = ''agents/frontend''"

definition BACKEND_IMAGE_NAME :: string where
  "BACKEND_IMAGE_NAME = ''agents/backend''"

definition IMAGE_TAG :: string where
  "IMAGE_TAG = ''latest''"

definition ECR_URL :: string where
  "ECR_URL = ''654553612832.dkr.ecr.eu-central-1.amazonaws.com''"

definition AWS_REGION :: string where
  "AWS_REGION = ''eu-central-1''"

section \<open>The world outside the script\<close>

text \<open>
  The script moves between three directories: the one it is started in and the two
  component directories it enters with \<^verbatim>\<open>cd frontend\<close> and \<^verbatim>\<open>cd backend\<close>.
\<close>

datatype dir = Root | Frontend | Backend

text \<open>
  The external programs the script starts, with the arguments it passes:
  \<^item> \<open>Cp\<close> is \<^verbatim>\<open>cp .env.local .env.local.backup\<close>,
    \<open>Mv\<close> is \<^verbatim>\<open>mv .env.local.backup .env.local\<close>;
  \<^item> \<open>DockerBuild d p t\<close> is \<^verbatim>\<open>docker buildx build --platform p --load -t t .\<close>
    started in directory \<open>d\<close> (the build context \<^verbatim>\<open>.\<close>);
  \<^item> \<open>AwsGetLoginPassword r\<close> is \<^verbatim>\<open>aws ecr get-login-password --region r\<close>;
  \<^item> \<open>DockerLogin u url\<close> is \<^verbatim>\<open>docker login --username u --password-stdin url\<close>;
  \<^item> \<open>DockerTag src dst\<close>, \<open>DockerPush ref\<close> and \<open>DockerRmi ref\<close> are
    \<^verbatim>\<open>docker tag\<close>, \<^verbatim>\<open>docker push\<close> and \<^verbatim>\<open>docker rmi\<close>.
\<close>

datatype call =
    Cp
  | Mv
  | DockerBuild dir string string
  | AwsGetLoginPassword string
  | DockerLogin string string
  | DockerTag string string
  | DockerPush string
  | DockerRmi string

text \<open>
  The two files of the frontend directory that the script tests, copies and renames:
  \<^verbatim>\<open>.env.local\<close> and \<^verbatim>\<open>.env.local.backup\<close>. \<open>None\<close> is an absent file, \<open>Some c\<close> a
  regular file with content \<open>c\<close>.
\<close>

record files =
  env_local :: "string option"
  env_backup :: "string option"

text \<open>
  Everything the script cannot decide itself is a parameter:
  \<^item> \<open>installed c\<close>: does \<^verbatim>\<open>command -v c\<close> succeed;
  \<^item> \<open>has_dir d\<close>: does \<^verbatim>\<open>cd\<close> into the component directory \<open>d\<close> succeed;
  \<^item> \<open>status h c\<close>: the exit status of the external program \<open>c\<close> when the programs
    \<open>h\<close> have been started before it in this run (0 is success);
  \<^item> \<open>effect h c\<close>: what the opaque programs (docker, aws) do to the two files;
  \<^item> \<open>unicode v\<close>: the bytes \<^verbatim>\<open>echo -e\<close> writes for the code point \<open>v\<close> above 127 of a
    \<^verbatim>\<open>\u\<close> or \<^verbatim>\<open>\U\<close> escape, which depend on the locale.
\<close>

record world =
  installed :: "string \<Rightarrow> bool"
  has_dir :: "dir \<Rightarrow> bool"
  status :: "call list \<Rightarrow> call \<Rightarrow> nat"
  effect :: "call list \<Rightarrow> call \<Rightarrow> files \<Rightarrow> files"
  unicode :: "nat \<Rightarrow> string"

section \<open>The state of a run\<close>

text \<open>
  A piece of output. The four \<^verbatim>\<open>print_*\<close> functions prefix their message with a coloured
  tag (\<^verbatim>\<open>[INFO]\<close>, \<^verbatim>\<open>[SUCCESS]\<close>, \<^verbatim>\<open>[WARNING]\<close>, \<^verbatim>\<open>[ERROR]\<close>); the constructor stands for
  that prefix and carries the text printed after it. \<open>Plain\<close> is a bare \<^verbatim>\<open>echo\<close>. Every piece
  ends with a newline, except when it is wrapped in \<open>Unterminated\<close>: then the output
  stopped before the newline and the next piece continues the same line.
\<close>

datatype line = Info string | Success string | Warning string | Error string | Plain string
  | Unterminated line

record state =
  cwd :: dir
  fs :: files
  trace :: "call list"
  out :: "line list"

text \<open>
  The script runs under \<^verbatim>\<open>set -e\<close> (line 2): a step either lets the script continue or
  ends the whole process with an exit status.
\<close>

datatype outcome = Cont state | Exit nat state

text \<open>Commands one after the other: the first one that exits ends the sequence.\<close>

fun steps :: "(state \<Rightarrow> outcome) list \<Rightarrow> state \<Rightarrow> outcome" where
  "steps [] s = Cont s"
| "steps (f # rest) s = (case f s of Cont s' \<Rightarrow> steps rest s' | Exit rc s' \<Rightarrow> Exit rc s')"

definition emit :: "line \<Rightarrow> state \<Rightarrow> outcome" where
  "emit l s = Cont (s\<lparr>out := out s @ [l]\<rparr>)"

definition echo :: "string \<Rightarrow> state \<Rightarrow> outcome" where
  "echo m = emit (Plain m)"

text \<open>
  The \<^verbatim>\<open>print_*\<close> functions print with \<^verbatim>\<open>echo -e\<close>, which expands the backslash escapes of
  its argument (bash 5, builtin \<^verbatim>\<open>echo\<close>):
  \<^item> \<^verbatim>\<open>\a \b \e \E \f \n \r \t \v\<close> and a doubled backslash give one character;
  \<^item> \<^verbatim>\<open>\c\<close> ends the output: nothing more is printed, not even the final newline;
  \<^item> \<^verbatim>\<open>\0\<close> with up to three octal digits and \<^verbatim>\<open>\x\<close> with one or two hexadecimal digits
    give the byte of that value;
  \<^item> \<^verbatim>\<open>\u\<close> with up to four and \<^verbatim>\<open>\U\<close> with up to eight hexadecimal digits give a code
    point: up to 127 it is that character, above it is written as the locale encodes it,
    which is a parameter of the world;
  \<^item> \<^verbatim>\<open>\x\<close>, \<^verbatim>\<open>\u\<close> and \<^verbatim>\<open>\U\<close> without a digit, a backslash before any other character
    and a backslash at the end are printed as they are.
  \<open>echo_e\<close> returns the text printed and whether \<^verbatim>\<open>\c\<close> has cut it.
\<close>

definition octal_digit :: "char \<Rightarrow> bool" where
  "octal_digit c = (c \<in> set ''01234567'')"

definition hex_digit :: "char \<Rightarrow> bool" where
  "hex_digit c = (c \<in> set ''0123456789abcdefABCDEF'')"

definition digit_value :: "char \<Rightarrow> nat" where
  "digit_value c =
     (if c \<in> set ''0123456789'' then of_char c - 48
      else if c \<in> set ''abcdef'' then of_char c - 87
      else of_char c - 55)"

definition number :: "nat \<Rightarrow> string \<Rightarrow> nat" where
  "number base ds = foldl (\<lambda>v d. v * base + digit_value d) 0 ds"

text \<open>The digits an escape consumes: the leading ones, at most \<open>n\<close>.\<close>

definition digits :: "(char \<Rightarrow> bool) \<Rightarrow> nat \<Rightarrow> string \<Rightarrow> string" where
  "digits p n s = takeWhile p (take n s)"

fun prepend :: "string \<Rightarrow> string \<times> bool \<Rightarrow> string \<times> bool" where
  "prepend p (t, stop) = (p @ t, stop)"

fun echo_e :: "(nat \<Rightarrow> string) \<Rightarrow> string \<Rightarrow> string \<times> bool" where
  "echo_e enc [] = ([], False)"
| "echo_e enc [c] = ([c], False)"
| "echo_e enc (c # e # r) =
     (if c \<noteq> CHR 0x5C then prepend [c] (echo_e enc (e # r))
      else if e = CHR ''c'' then ([], True)
      else if e = CHR ''a'' then prepend [CHR 0x07] (echo_e enc r)
      else if e = CHR ''b'' then prepend [CHR 0x08] (echo_e enc r)
      else if e = CHR ''e'' \<or> e = CHR ''E'' then prepend [CHR 0x1B] (echo_e enc r)
      else if e = CHR ''f'' then prepend [CHR 0x0C] (echo_e enc r)
      else if e = CHR ''n'' then prepend [CHR 0x0A] (echo_e enc r)
      else if e = CHR ''r'' then prepend [CHR 0x0D] (echo_e enc r)
      else if e = CHR ''t'' then prepend [CHR 0x09] (echo_e enc r)
      else if e = CHR ''v'' then prepend [CHR 0x0B] (echo_e enc r)
      else if e = CHR 0x5C then prepend [CHR 0x5C] (echo_e enc r)
      else if e = CHR ''0'' then
        prepend [char_of (number 8 (digits octal_digit 3 r))]
          (echo_e enc (drop (length (digits octal_digit 3 r)) r))
      else if e = CHR ''x'' then
        (if digits hex_digit 2 r = [] then prepend [CHR 0x5C, e] (echo_e enc r)
         else prepend [char_of (number 16 (digits hex_digit 2 r))]
                (echo_e enc (drop (length (digits hex_digit 2 r)) r)))
      else if e = CHR ''u'' \<or> e = CHR ''U'' then
        (let ds = digits hex_digit (if e = CHR ''u'' then 4 else 8) r in
         if ds = [] then prepend [CHR 0x5C, e] (echo_e enc r)
         else prepend (if number 16 ds \<le> 127 then [char_of (number 16 ds)]
                       else enc (number 16 ds))
                (echo_e enc (drop (length ds) r)))
      else prepend [CHR 0x5C, e] (echo_e enc r))"

text \<open>
  \<^verbatim>\<open>echo -e "${COLOR}[TAG]${NC} $1"\<close>: the prefix, which the constructor \<open>tag\<close> stands for,
  has no \<^verbatim>\<open>\c\<close> and ends with a space, so the escapes of the message are expanded on their
  own.
\<close>

definition print_with :: "(string \<Rightarrow> line) \<Rightarrow> world \<Rightarrow> string \<Rightarrow> state \<Rightarrow> outcome" where
  "print_with tag w m =
     (case echo_e (unicode w) m of
        (t, stop) \<Rightarrow> emit (if stop then Unterminated (tag t) else tag t))"

definition print_status :: "world \<Rightarrow> string \<Rightarrow> state \<Rightarrow> outcome" where
  "print_status = print_with Info"

definition print_success :: "world \<Rightarrow> string \<Rightarrow> state \<Rightarrow> outcome" where
  "print_success = print_with Success"

definition print_warning :: "world \<Rightarrow> string \<Rightarrow> state \<Rightarrow> outcome" where
  "print_warning = print_with Warning"

definition print_error :: "world \<Rightarrow> string \<Rightarrow> state \<Rightarrow> outcome" where
  "print_error = print_with Error"

definition exit_with :: "nat \<Rightarrow> state \<Rightarrow> outcome" where
  "exit_with rc s = Exit rc s"

definition command_exists :: "world \<Rightarrow> string \<Rightarrow> bool" where
  "command_exists w c = installed w c"

text \<open>
  Starting an external program: it is appended to the trace, the world gives its exit
  status and its effect on the two files.
\<close>

definition run :: "world \<Rightarrow> call \<Rightarrow> state \<Rightarrow> nat \<times> state" where
  "run w c s =
     (status w (trace s) c,
      s\<lparr>fs := effect w (trace s) c (fs s), trace := trace s @ [c]\<rparr>)"

text \<open>A simple command under \<^verbatim>\<open>set -e\<close>: a non-zero status ends the script with it.\<close>

definition must :: "world \<Rightarrow> call \<Rightarrow> state \<Rightarrow> outcome" where
  "must w c s = (case run w c s of (rc, s') \<Rightarrow> if rc = 0 then Cont s' else Exit rc s')"

text \<open>\<^verbatim>\<open>cmd 2>/dev/null || true\<close>: the status of the command is dropped.\<close>

definition or_true :: "world \<Rightarrow> call \<Rightarrow> state \<Rightarrow> outcome" where
  "or_true w c s = Cont (snd (run w c s))"

text \<open>
  \<^verbatim>\<open>cd d\<close> into a component directory fails with status 1 when the directory is
  missing; \<^verbatim>\<open>cd ..\<close> leads back to the start directory.
\<close>

definition cd :: "world \<Rightarrow> dir \<Rightarrow> state \<Rightarrow> outcome" where
  "cd w d s = (if has_dir w d then Cont (s\<lparr>cwd := d\<rparr>) else Exit 1 s)"

definition cd_parent :: "state \<Rightarrow> outcome" where
  "cd_parent s = Cont (s\<lparr>cwd := Root\<rparr>)"

text \<open>
  \<^verbatim>\<open>cp .env.local .env.local.backup\<close> and \<^verbatim>\<open>mv .env.local.backup .env.local\<close>: the
  world decides whether they succeed; when they do, they copy and rename. A failing
  \<^verbatim>\<open>cp\<close> or \<^verbatim>\<open>mv\<close> is taken to leave both files as they were.
\<close>

definition cp_env :: "world \<Rightarrow> state \<Rightarrow> outcome" where
  "cp_env w s =
     (let rc = status w (trace s) Cp; s' = s\<lparr>trace := trace s @ [Cp]\<rparr>
      in if rc = 0 then Cont (s'\<lparr>fs := (fs s)\<lparr>env_backup := env_local (fs s)\<rparr>\<rparr>)
         else Exit rc s')"

definition mv_env :: "world \<Rightarrow> state \<Rightarrow> outcome" where
  "mv_env w s =
     (let rc = status w (trace s) Mv; s' = s\<lparr>trace := trace s @ [Mv]\<rparr>
      in if rc = 0
         then Cont (s'\<lparr>fs := (fs s)\<lparr>env_local := env_backup (fs s), env_backup := None\<rparr>\<rparr>)
         else Exit rc s')"

text \<open>
  The pipeline of lines 93 and 122,
  \<^verbatim>\<open>aws ecr get-login-password --region $AWS_REGION | docker login --username AWS --password-stdin "$ECR_URL"\<close>.
  Both programs are started; without \<^verbatim>\<open>pipefail\<close> the status of the pipeline is the one
  of its last command, \<^verbatim>\<open>docker login\<close>.
\<close>

definition ecr_login :: "world \<Rightarrow> state \<Rightarrow> outcome" where
  "ecr_login w s =
     must w (DockerLogin ''AWS'' ECR_URL) (snd (run w (AwsGetLoginPassword AWS_REGION) s))"

section \<open>The functions of release.sh\<close>

definition check_prerequisites :: "world \<Rightarrow> state \<Rightarrow> outcome" where
  "check_prerequisites w = steps
     [print_status w ''Checking prerequisites...'',
      (\<lambda>s. if \<not> command_exists w ''docker''
           then steps [print_error w ''Docker is not installed or not in PATH'', exit_with 1] s
           else Cont s),
      (\<lambda>s. if \<not> command_exists w ''aws''
           then steps [print_error w ''AWS CLI is not installed or not in PATH'', exit_with 1] s
           else Cont s),
      (\<lambda>s. if \<not> command_exists w ''pnpm''
           then print_warning w ''pnpm not found, will use npm for frontend build'' s
           else Cont s),
      print_success w ''Prerequisites check passed'']"

definition build_and_upload_frontend :: "world \<Rightarrow> state \<Rightarrow> outcome" where
  "build_and_upload_frontend w = steps
     [print_status w ''Building and uploading frontend image...'',
      cd w Frontend,
      (\<lambda>s. if env_local (fs s) \<noteq> None
           then steps [cp_env w, print_status w ''Backed up .env.local''] s
           else Cont s),
      print_status w ''Building frontend Docker image...'',
      must w (DockerBuild Frontend ''linux/amd64'' (FRONTEND_IMAGE_NAME @ '':'' @ IMAGE_TAG)),
      print_status w ''Logging in to ECR...'',
      ecr_login w,
      print_status w ''Tagging and pushing frontend image...'',
      must w (DockerTag (FRONTEND_IMAGE_NAME @ '':'' @ IMAGE_TAG)
                (ECR_URL @ ''/'' @ FRONTEND_IMAGE_NAME @ '':'' @ IMAGE_TAG)),
      must w (DockerPush (ECR_URL @ ''/'' @ FRONTEND_IMAGE_NAME @ '':'' @ IMAGE_TAG)),
      (\<lambda>s. if env_backup (fs s) \<noteq> None
           then steps [mv_env w, print_status w ''Restored .env.local''] s
           else Cont s),
      cd_parent,
      print_success w ''Frontend image uploaded successfully'']"

definition build_and_upload_backend :: "world \<Rightarrow> state \<Rightarrow> outcome" where
  "build_and_upload_backend w = steps
     [print_status w ''Building and uploading backend image...'',
      cd w Backend,
      print_status w ''Building backend Docker image...'',
      must w (DockerBuild Backend ''linux/amd64'' (BACKEND_IMAGE_NAME @ '':'' @ IMAGE_TAG)),
      print_status w ''Ensuring ECR login...'',
      ecr_login w,
      print_status w ''Tagging and pushing backend image...'',
      must w (DockerTag (BACKEND_IMAGE_NAME @ '':'' @ IMAGE_TAG)
                (ECR_URL @ ''/'' @ BACKEND_IMAGE_NAME @ '':'' @ IMAGE_TAG)),
      must w (DockerPush (ECR_URL @ ''/'' @ BACKEND_IMAGE_NAME @ '':'' @ IMAGE_TAG)),
      cd_parent,
      print_success w ''Backend image uploaded successfully'']"

definition cleanup_local_images :: "world \<Rightarrow> state \<Rightarrow> outcome" where
  "cleanup_local_images w = steps
     [print_status w ''Cleaning up local images...'',
      or_true w (DockerRmi (FRONTEND_IMAGE_NAME @ '':'' @ IMAGE_TAG)),
      or_true w (DockerRmi (BACKEND_IMAGE_NAME @ '':'' @ IMAGE_TAG)),
      or_true w (DockerRmi (ECR_URL @ ''/'' @ FRONTEND_IMAGE_NAME @ '':'' @ IMAGE_TAG)),
      or_true w (DockerRmi (ECR_URL @ ''/'' @ BACKEND_IMAGE_NAME @ '':'' @ IMAGE_TAG)),
      print_success w ''Local images cleaned up'']"

definition display_image_info :: "world \<Rightarrow> state \<Rightarrow> outcome" where
  "display_image_info w = steps
     [print_status w ''Image information:'',
      echo (''Frontend: '' @ ECR_URL @ ''/'' @ FRONTEND_IMAGE_NAME @ '':'' @ IMAGE_TAG),
      echo (''Backend: '' @ ECR_URL @ ''/'' @ BACKEND_IMAGE_NAME @ '':'' @ IMAGE_TAG),
      echo (''Region: '' @ AWS_REGION)]"

definition main :: "world \<Rightarrow> state \<Rightarrow> outcome" where
  "main w = steps
     [print_status w ''Starting image upload process...'',
      check_prerequisites w,
      display_image_info w,
      build_and_upload_frontend w,
      build_and_upload_backend w,
      cleanup_local_images w,
      print_success w ''All images uploaded successfully!'',
      print_status w ''You can now use these images in your deployment.'']"

section \<open>The script\<close>

text \<open>\<^verbatim>\<open>${1:-}\<close>: the first argument, or the empty string when there is none.\<close>

definition arg1 :: "string list \<Rightarrow> string" where
  "arg1 args = (case args of [] \<Rightarrow> [] | a # _ \<Rightarrow> a)"

text \<open>
  The \<^verbatim>\<open>case\<close> statement of lines 178 to 212, its branches in the order of the source;
  \<open>prog\<close> is \<^verbatim>\<open>$0\<close>.
\<close>

definition dispatch :: "world \<Rightarrow> string \<Rightarrow> string list \<Rightarrow> state \<Rightarrow> outcome" where
  "dispatch w prog args =
     (let a = arg1 args in
      if a = ''--frontend-only'' then steps
        [print_status w ''Building and uploading frontend only...'',
         check_prerequisites w,
         build_and_upload_frontend w,
         cleanup_local_images w,
         print_success w ''Frontend image uploaded successfully!'']
      else if a = ''--backend-only'' then steps
        [print_status w ''Building and uploading backend only...'',
         check_prerequisites w,
         build_and_upload_backend w,
         cleanup_local_images w,
         print_success w ''Backend image uploaded successfully!'']
      else if a = ''--help'' \<or> a = ''-h'' then steps
        [echo (''Usage: '' @ prog @ '' [OPTION]''),
         echo '''',
         echo ''Options:'',
         echo ''  --frontend-only    Build and upload only the frontend image'',
         echo ''  --backend-only     Build and upload only the backend image'',
         echo ''  --help, -h         Show this help message'',
         echo '''',
         echo ''Default behavior: Build and upload both frontend and backend images'',
         exit_with 0]
      else if a = '''' then main w
      else steps
        [print_error w (''Unknown option: '' @ a),
         echo ''Use --help for usage information'',
         exit_with 1])"

text \<open>
  A run of the script: it starts in the start directory with nothing printed and no
  program started, and ends with an exit status (0 when the last command of the chosen
  branch has run) and a final state.
\<close>

definition initial :: "files \<Rightarrow> state" where
  "initial f = \<lparr>cwd = Root, fs = f, trace = [], out = []\<rparr>"

definition release_sh :: "world \<Rightarrow> string \<Rightarrow> string list \<Rightarrow> files \<Rightarrow> nat \<times> state" where
  "release_sh w prog args f =
     (case dispatch w prog args (initial f) of Cont s \<Rightarrow> (0, s) | Exit rc s \<Rightarrow> (rc, s))"

section \<open>Vocabulary for the properties\<close>

text \<open>The state a step leaves behind, whether the script continues or exits.\<close>

fun final :: "outcome \<Rightarrow> state" where
  "final (Cont s) = s"
| "final (Exit rc s) = s"

text \<open>The exit status of the process when the script stops after this step.\<close>

fun exit_code :: "outcome \<Rightarrow> nat" where
  "exit_code (Cont s) = 0"
| "exit_code (Exit rc s) = rc"

text \<open>A step has failed when it ended the script with a non-zero exit status.\<close>

fun failed :: "outcome \<Rightarrow> bool" where
  "failed (Cont s) = False"
| "failed (Exit rc s) = (rc \<noteq> 0)"

text \<open>The stages of a component's release, as kinds of external program.\<close>

fun is_build :: "call \<Rightarrow> bool" where
  "is_build (DockerBuild d p t) = True"
| "is_build c = False"

fun is_auth :: "call \<Rightarrow> bool" where
  "is_auth (AwsGetLoginPassword r) = True"
| "is_auth (DockerLogin u url) = True"
| "is_auth c = False"

fun is_tag :: "call \<Rightarrow> bool" where
  "is_tag (DockerTag src dst) = True"
| "is_tag c = False"

fun is_push :: "call \<Rightarrow> bool" where
  "is_push (DockerPush r) = True"
| "is_push c = False"

fun is_rmi :: "call \<Rightarrow> bool" where
  "is_rmi (DockerRmi r) = True"
| "is_rmi c = False"

text \<open>
  \<open>appends P s r\<close>: the outcome \<open>r\<close> of a step started in \<open>s\<close> has kept the trace of
  \<open>s\<close> and added only programs that satisfy \<open>P\<close>.
\<close>

definition appends :: "(call \<Rightarrow> bool) \<Rightarrow> state \<Rightarrow> outcome \<Rightarrow> bool" where
  "appends P s r =
     (take (length (trace s)) (trace (final r)) = trace s \<and>
      list_all P (drop (length (trace s)) (trace (final r))))"

text \<open>The programs a component's workflow may start.\<close>

definition frontend_call :: "call \<Rightarrow> bool" where
  "frontend_call c =
     (c \<in> {Cp, Mv,
           DockerBuild Frontend ''linux/amd64'' (FRONTEND_IMAGE_NAME @ '':'' @ IMAGE_TAG),
           AwsGetLoginPassword AWS_REGION,
           DockerLogin ''AWS'' ECR_URL,
           DockerTag (FRONTEND_IMAGE_NAME @ '':'' @ IMAGE_TAG)
             (ECR_URL @ ''/'' @ FRONTEND_IMAGE_NAME @ '':'' @ IMAGE_TAG),
           DockerPush (ECR_URL @ ''/'' @ FRONTEND_IMAGE_NAME @ '':'' @ IMAGE_TAG)})"

definition backend_call :: "call \<Rightarrow> bool" where
  "backend_call c =
     (c \<in> {DockerBuild Backend ''linux/amd64'' (BACKEND_IMAGE_NAME @ '':'' @ IMAGE_TAG),
           AwsGetLoginPassword AWS_REGION,
           DockerLogin ''AWS'' ECR_URL,
           DockerTag (BACKEND_IMAGE_NAME @ '':'' @ IMAGE_TAG)
             (ECR_URL @ ''/'' @ BACKEND_IMAGE_NAME @ '':'' @ IMAGE_TAG),
           DockerPush (ECR_URL @ ''/'' @ BACKEND_IMAGE_NAME @ '':'' @ IMAGE_TAG)})"

text \<open>The four removals of the cleanup, in the order of lines 138 to 141.\<close>

definition cleanup_calls :: "call list" where
  "cleanup_calls =
     [DockerRmi (FRONTEND_IMAGE_NAME @ '':'' @ IMAGE_TAG),
      DockerRmi (BACKEND_IMAGE_NAME @ '':'' @ IMAGE_TAG),
      DockerRmi (ECR_URL @ ''/'' @ FRONTEND_IMAGE_NAME @ '':'' @ IMAGE_TAG),
      DockerRmi (ECR_URL @ ''/'' @ BACKEND_IMAGE_NAME @ '':'' @ IMAGE_TAG)]"

text \<open>
  The state in which \<^verbatim>\<open>main\<close> enters the frontend workflow: the one its first three
  commands leave when the prerequisite check passes.
\<close>

definition main_entry :: "world \<Rightarrow> files \<Rightarrow> state" where
  "main_entry w f =
     final (steps [print_status w ''Starting image upload process...'',
                   check_prerequisites w,
                   display_image_info w] (initial f))"

section \<open>Concrete worlds\<close>

text \<open>
  A world in which every tool is installed, both component directories exist, every
  program succeeds and no program touches the two files; and variations of it.
\<close>

definition all_ok :: world where
  "all_ok = \<lparr>installed = (\<lambda>c. True), has_dir = (\<lambda>d. True), status = (\<lambda>h c. 0),
             effect = (\<lambda>h c f. f), unicode = (\<lambda>v. ''?'')\<rparr>"

definition no_docker :: world where
  "no_docker = all_ok\<lparr>installed := (\<lambda>c. c \<noteq> ''docker'')\<rparr>"

definition no_pnpm :: world where
  "no_pnpm = all_ok\<lparr>installed := (\<lambda>c. c \<noteq> ''pnpm'')\<rparr>"

text \<open>The frontend image build fails with status 1.\<close>

definition frontend_build_fails :: world where
  "frontend_build_fails =
     all_ok\<lparr>status := (\<lambda>h c. case c of DockerBuild Frontend p t \<Rightarrow> 1 | _ \<Rightarrow> 0)\<rparr>"

text \<open>Every image build fails with status 1.\<close>

definition builds_fail :: world where
  "builds_fail = all_ok\<lparr>status := (\<lambda>h c. if is_build c then 1 else 0)\<rparr>"

text \<open>\<^verbatim>\<open>docker login\<close> succeeds the first time it is started and fails with status 1 after that.\<close>

definition second_login_fails :: world where
  "second_login_fails =
     all_ok\<lparr>status := (\<lambda>h c. if c = DockerLogin ''AWS'' ECR_URL \<and> c \<in> set h then 1 else 0)\<rparr>"

text \<open>Every \<^verbatim>\<open>docker rmi\<close> fails with status 1 (the image is already absent).\<close>

definition rmi_fails :: world where
  "rmi_fails = all_ok\<lparr>status := (\<lambda>h c. if is_rmi c then 1 else 0)\<rparr>"

text \<open>The image build rewrites \<^verbatim>\<open>.env.local\<close>.\<close>

definition build_rewrites_env :: world where
  "build_rewrites_env =
     all_ok\<lparr>effect := (\<lambda>h c f. if is_build c then f\<lparr>env_local := Some ''VITE_API_URL=x''\<rparr> else f)\<rparr>"

text \<open>The image build rewrites \<^verbatim>\<open>.env.local\<close> and then fails with status 1.\<close>

definition build_rewrites_env_and_fails :: world where
  "build_rewrites_env_and_fails =
     build_rewrites_env\<lparr>status := (\<lambda>h c. if is_build c then 1 else 0)\<rparr>"

definition env_present :: files where
  "env_present = \<lparr>env_local = Some ''KEY=1'', env_backup = None\<rparr>"

definition env_absent :: files where
  "env_absent = \<lparr>env_local = None, env_backup = None\<rparr>"

definition stale_backup :: files where
  "stale_backup = \<lparr>env_local = None, env_backup = Some ''OLD=1''\<rparr>"

section \<open>Proof tools\<close>

subsection \<open>Messages and their escapes\<close>

text \<open>A message without a backslash is printed as it is.\<close>

lemma echo_e_plain: "CHR 0x5C \<notin> set m \<Longrightarrow> echo_e enc m = (m, False)"
proof (induction m)
  case Nil
  show ?case by simp
next
  case (Cons c m)
  then show ?case by (cases m) auto
qed

lemma print_with_plain: "CHR 0x5C \<notin> set m \<Longrightarrow> print_with tag w m = emit (tag m)"
  by (simp add: print_with_def echo_e_plain)

lemma print_status_plain: "CHR 0x5C \<notin> set m \<Longrightarrow> print_status w m = emit (Info m)"
  by (simp add: print_status_def print_with_plain)

lemma print_success_plain: "CHR 0x5C \<notin> set m \<Longrightarrow> print_success w m = emit (Success m)"
  by (simp add: print_success_def print_with_plain)

lemma print_warning_plain: "CHR 0x5C \<notin> set m \<Longrightarrow> print_warning w m = emit (Warning m)"
  by (simp add: print_warning_def print_with_plain)

lemma print_error_plain: "CHR 0x5C \<notin> set m \<Longrightarrow> print_error w m = emit (Error m)"
  by (simp add: print_error_def print_with_plain)

text \<open>Whatever the message, a \<^verbatim>\<open>print_*\<close> function prints one piece and lets the script go on.\<close>

lemma print_with_emit: "\<exists>l. print_with tag w m = emit l"
  by (cases "echo_e (unicode w) m") (auto simp add: print_with_def)

lemma print_error_emit: "\<exists>l. print_error w m = emit l"
  by (simp add: print_error_def print_with_emit)

text \<open>The escapes of a message that follows a text without a backslash.\<close>

lemma prepend_prepend: "prepend p (prepend q x) = prepend (p @ q) x"
  by (cases x) simp

lemma echo_e_prefix:
  "CHR 0x5C \<notin> set p \<Longrightarrow> echo_e enc (p @ m) = prepend p (echo_e enc m)"
proof (induction p)
  case Nil
  show ?case by (cases "echo_e enc m") simp
next
  case (Cons c p)
  show ?case
  proof (cases "p @ m")
    case Nil
    then show ?thesis by simp
  next
    case (Cons e r)
    have "echo_e enc (c # e # r) = prepend [c] (echo_e enc (e # r))"
      using Cons.prems by auto
    then show ?thesis
      using Cons.IH Cons.prems Cons by (simp add: prepend_prepend)
  qed
qed

subsection \<open>Unfolding\<close>

text \<open>The definitions of the shell primitives, of the configuration and of the concrete worlds.\<close>

lemmas prim_defs = emit_def echo_def print_status_plain print_success_plain print_warning_plain
  print_error_plain exit_with_def command_exists_def run_def must_def or_true_def cd_def
  cd_parent_def cp_env_def mv_env_def ecr_login_def Let_def

lemmas config_defs = FRONTEND_IMAGE_NAME_def BACKEND_IMAGE_NAME_def IMAGE_TAG_def
  ECR_URL_def AWS_REGION_def

lemmas world_defs = all_ok_def no_docker_def no_pnpm_def frontend_build_fails_def
  builds_fail_def second_login_fails_def rmi_fails_def build_rewrites_env_def build_rewrites_env_and_fails_def
  env_present_def env_absent_def stale_backup_def initial_def

subsection \<open>The calculus of appended calls\<close>

lemma appends_refl: "appends P s (Cont s)"
  by (simp add: appends_def)

lemma appends_trans:
  assumes "appends P s (Cont s')" and "appends P s' r"
  shows "appends P s r"
proof -
  from assms(1) obtain ys where ys: "trace s' = trace s @ ys" "list_all P ys"
    by (simp add: appends_def) (metis append_take_drop_id)
  from assms(2) obtain zs where zs: "trace (final r) = trace s' @ zs" "list_all P zs"
    by (simp add: appends_def) (metis append_take_drop_id)
  have "trace (final r) = trace s @ (ys @ zs)" using ys zs by simp
  moreover have "list_all P (ys @ zs)" using ys zs by simp
  ultimately show ?thesis by (simp add: appends_def)
qed

lemma appends_steps:
  "(\<And>f t. f \<in> set gs \<Longrightarrow> appends P t (f t)) \<Longrightarrow> appends P s (steps gs s)"
proof (induction gs arbitrary: s)
  case Nil
  show ?case by (simp add: appends_refl)
next
  case (Cons f gs)
  have hd: "appends P s (f s)" using Cons.prems by simp
  show ?case
  proof (cases "f s")
    case (Cont s')
    have "appends P s' (steps gs s')" using Cons by simp
    with hd Cont show ?thesis by (simp add: appends_trans [where s' = s'])
  next
    case (Exit rc s')
    with hd show ?thesis by simp
  qed
qed

lemma appends_emit: "appends P s (emit l s)"
  by (simp add: emit_def appends_def)

lemma appends_cd: "appends P s (cd w d s)"
  by (simp add: cd_def appends_def)

lemma appends_cd_parent: "appends P s (cd_parent s)"
  by (simp add: cd_parent_def appends_def)

lemma appends_exit_with: "appends P s (exit_with rc s)"
  by (simp add: exit_with_def appends_def)

lemma appends_must: "P c \<Longrightarrow> appends P s (must w c s)"
  by (simp add: must_def run_def appends_def)

lemma appends_or_true: "P c \<Longrightarrow> appends P s (or_true w c s)"
  by (simp add: or_true_def run_def appends_def)

lemma appends_cp_env: "P Cp \<Longrightarrow> appends P s (cp_env w s)"
  by (simp add: cp_env_def Let_def appends_def)

lemma appends_mv_env: "P Mv \<Longrightarrow> appends P s (mv_env w s)"
  by (simp add: mv_env_def Let_def appends_def)

lemma appends_ecr_login:
  "P (AwsGetLoginPassword AWS_REGION) \<Longrightarrow> P (DockerLogin ''AWS'' ECR_URL) \<Longrightarrow>
   appends P s (ecr_login w s)"
  by (simp add: ecr_login_def must_def run_def appends_def)

lemmas appends_prims = appends_emit appends_cd appends_cd_parent appends_exit_with
  appends_must appends_or_true appends_cp_env appends_mv_env appends_ecr_login appends_refl
  print_status_plain print_success_plain print_warning_plain print_error_plain echo_def

lemma frontend_appends: "appends frontend_call s (build_and_upload_frontend w s)"
  unfolding build_and_upload_frontend_def
  by (rule appends_steps) (auto simp add: appends_prims frontend_call_def simp del: steps.simps intro!: appends_steps)

lemma backend_appends: "appends backend_call s (build_and_upload_backend w s)"
  unfolding build_and_upload_backend_def
  by (rule appends_steps) (auto simp add: appends_prims backend_call_def)

lemma check_appends: "appends (\<lambda>c. False) s (check_prerequisites w s)"
  unfolding check_prerequisites_def
  by (rule appends_steps) (auto simp add: appends_prims simp del: steps.simps intro!: appends_steps)

subsection \<open>Sequencing\<close>

lemma steps_append:
  "steps (gs @ hs) s = (case steps gs s of Cont s' \<Rightarrow> steps hs s' | Exit rc s' \<Rightarrow> Exit rc s')"
  by (induction gs arbitrary: s) (simp_all split: outcome.splits)

lemma fst_release_sh: "fst (release_sh w prog args f) = exit_code (dispatch w prog args (initial f))"
  by (simp add: release_sh_def split: outcome.splits)

lemma snd_release_sh: "snd (release_sh w prog args f) = final (dispatch w prog args (initial f))"
  by (simp add: release_sh_def split: outcome.splits)

lemma steps_no_exit0:
  "(\<And>f t t'. f \<in> set gs \<Longrightarrow> f t \<noteq> Exit 0 t') \<Longrightarrow> steps gs s \<noteq> Exit 0 s'"
proof (induction gs arbitrary: s)
  case Nil
  show ?case by simp
next
  case (Cons g gs)
  show ?case
  proof (cases "g s")
    case (Cont t)
    then show ?thesis using Cons by simp
  next
    case (Exit rc t)
    moreover have "g s \<noteq> Exit 0 t" using Cons.prems by simp
    ultimately show ?thesis by auto
  qed
qed

lemma must_no_exit0: "must w c s \<noteq> Exit 0 s'"
  by (simp add: must_def run_def)

lemma emit_no_exit0: "emit l s \<noteq> Exit 0 s'"
  by (simp add: emit_def)

lemma cd_no_exit0: "cd w d s \<noteq> Exit 0 s'"
  by (simp add: cd_def)

lemma cd_parent_no_exit0: "cd_parent s \<noteq> Exit 0 s'"
  by (simp add: cd_parent_def)

lemma cp_env_no_exit0: "cp_env w s \<noteq> Exit 0 s'"
  by (simp add: cp_env_def Let_def)

lemma mv_env_no_exit0: "mv_env w s \<noteq> Exit 0 s'"
  by (simp add: mv_env_def Let_def)

lemma ecr_login_no_exit0: "ecr_login w s \<noteq> Exit 0 s'"
  by (simp add: ecr_login_def must_no_exit0)

lemma or_true_no_exit0: "or_true w c s \<noteq> Exit 0 s'"
  by (simp add: or_true_def)

lemmas no_exit0_prims = must_no_exit0 emit_no_exit0 cd_no_exit0 cd_parent_no_exit0
  cp_env_no_exit0 mv_env_no_exit0 ecr_login_no_exit0 or_true_no_exit0
  print_status_plain print_success_plain print_warning_plain print_error_plain echo_def

lemma frontend_no_exit0: "build_and_upload_frontend w s \<noteq> Exit 0 s'"
proof
  assume "build_and_upload_frontend w s = Exit 0 s'"
  then show False
    by (simp add: build_and_upload_frontend_def prim_defs split: if_splits)
qed

lemma backend_no_exit0: "build_and_upload_backend w s \<noteq> Exit 0 s'"
  unfolding build_and_upload_backend_def
  by (rule steps_no_exit0) (auto simp add: no_exit0_prims simp del: steps.simps)

subsection \<open>The functions without external programs\<close>

lemma check_prerequisites_eq:
  "check_prerequisites w s =
     (if \<not> installed w ''docker''
      then Exit 1 (s\<lparr>out := out s @ [Info ''Checking prerequisites...'',
                                     Error ''Docker is not installed or not in PATH'']\<rparr>)
      else if \<not> installed w ''aws''
      then Exit 1 (s\<lparr>out := out s @ [Info ''Checking prerequisites...'',
                                     Error ''AWS CLI is not installed or not in PATH'']\<rparr>)
      else if \<not> installed w ''pnpm''
      then Cont (s\<lparr>out := out s @ [Info ''Checking prerequisites...'',
                                   Warning ''pnpm not found, will use npm for frontend build'',
                                   Success ''Prerequisites check passed'']\<rparr>)
      else Cont (s\<lparr>out := out s @ [Info ''Checking prerequisites...'',
                                   Success ''Prerequisites check passed'']\<rparr>))"
  by (simp add: check_prerequisites_def prim_defs)

lemma display_image_info_eq:
  "display_image_info w s =
     Cont (s\<lparr>out := out s @
       [Info ''Image information:'',
        Plain (''Frontend: '' @ ECR_URL @ ''/'' @ FRONTEND_IMAGE_NAME @ '':'' @ IMAGE_TAG),
        Plain (''Backend: '' @ ECR_URL @ ''/'' @ BACKEND_IMAGE_NAME @ '':'' @ IMAGE_TAG),
        Plain (''Region: '' @ AWS_REGION)]\<rparr>)"
  by (simp add: display_image_info_def prim_defs)

lemma cleanup_cont: "cleanup_local_images w s = Cont (final (cleanup_local_images w s))"
  by (simp add: cleanup_local_images_def prim_defs)

lemma cleanup_trace:
  "trace (final (cleanup_local_images w s)) = trace s @ cleanup_calls"
  by (simp add: cleanup_local_images_def cleanup_calls_def prim_defs)

lemma steps_emits:
  "(\<And>g. g \<in> set post \<Longrightarrow> \<exists>l. g = emit l) \<Longrightarrow>
   \<exists>t. steps post s = Cont t \<and> trace t = trace s"
proof (induction post arbitrary: s)
  case Nil
  show ?case by simp
next
  case (Cons g post)
  from Cons.prems obtain l where g: "g = emit l" by auto
  have "\<exists>t. steps post (s\<lparr>out := out s @ [l]\<rparr>) = Cont t \<and> trace t = trace (s\<lparr>out := out s @ [l]\<rparr>)"
    using Cons.prems by (intro Cons.IH) simp
  then show ?case by (simp add: g emit_def)
qed

text \<open>
  A branch of the script has the shape: steps, then the cleanup, then messages. When the
  steps before the cleanup exit, the branch exits then and there; otherwise it runs to
  its end and the cleanup has added its four calls.
\<close>

lemma branch_shape:
  assumes "\<And>g. g \<in> set post \<Longrightarrow> \<exists>l. g = emit l"
  shows "(\<forall>rc t. steps pre s = Exit rc t \<longrightarrow>
            steps (pre @ cleanup_local_images w # post) s = Exit rc t)
       \<and> (\<forall>t. steps pre s = Cont t \<longrightarrow>
            (\<exists>u. steps (pre @ cleanup_local_images w # post) s = Cont u \<and>
                 trace u = trace t @ cleanup_calls))"
proof -
  have "\<exists>u. steps (cleanup_local_images w # post) t = Cont u \<and> trace u = trace t @ cleanup_calls" for t
  proof -
    obtain u where u: "steps post (final (cleanup_local_images w t)) = Cont u"
        "trace u = trace (final (cleanup_local_images w t))"
      using steps_emits [OF assms] by blast
    have "steps (cleanup_local_images w # post) t = steps post (final (cleanup_local_images w t))"
      by (subst steps.simps, subst cleanup_cont) simp
    with u show ?thesis by (simp add: cleanup_trace)
  qed
  then show ?thesis by (simp add: steps_append del: steps.simps)
qed

subsection \<open>Branches of the script\<close>

lemma appends_mono: "appends P s r \<Longrightarrow> (\<And>c. P c \<Longrightarrow> Q c) \<Longrightarrow> appends Q s r"
  by (auto simp add: appends_def list_all_iff)

lemma appends_filter:
  assumes "appends P s r" and "\<And>c. P c \<Longrightarrow> \<not> Q c"
  shows "filter Q (trace (final r)) = filter Q (trace s)"
proof -
  let ?ys = "drop (length (trace s)) (trace (final r))"
  have "trace (final r) = trace s @ ?ys"
    using assms(1) by (simp add: appends_def) (metis append_take_drop_id)
  moreover have "filter Q ?ys = []"
    using assms by (auto simp add: appends_def list_all_iff filter_empty_conv)
  ultimately show ?thesis by (metis filter_append append_Nil2)
qed

lemma check_no_exit0: "check_prerequisites w s \<noteq> Exit 0 s'"
  by (simp add: check_prerequisites_eq)

lemma display_no_exit0: "display_image_info w s \<noteq> Exit 0 s'"
  by (simp add: display_image_info_eq)

lemma display_appends: "appends P s (display_image_info w s)"
  by (simp add: display_image_info_eq appends_def)

lemma no_rmi_frontend: "appends (\<lambda>c. \<not> is_rmi c) s (build_and_upload_frontend w s)"
  by (rule appends_mono [OF frontend_appends]) (auto simp add: frontend_call_def)

lemma no_rmi_backend: "appends (\<lambda>c. \<not> is_rmi c) s (build_and_upload_backend w s)"
  by (rule appends_mono [OF backend_appends]) (auto simp add: backend_call_def)

lemma no_rmi_check: "appends (\<lambda>c. \<not> is_rmi c) s (check_prerequisites w s)"
  by (rule appends_mono [OF check_appends]) simp

lemma filter_cleanup_calls: "filter is_rmi cleanup_calls = cleanup_calls"
  by (simp add: cleanup_calls_def)

lemma branch_rmi:
  assumes post: "\<And>g. g \<in> set post \<Longrightarrow> \<exists>l. g = emit l"
      and pre: "\<And>g t. g \<in> set pre \<Longrightarrow> appends (\<lambda>c. \<not> is_rmi c) t (g t)"
      and nz: "\<And>g t t'. g \<in> set pre \<Longrightarrow> g t \<noteq> Exit 0 t'"
      and start: "trace s = []"
  shows "filter is_rmi (trace (final (steps (pre @ cleanup_local_images w # post) s))) =
         (if exit_code (steps (pre @ cleanup_local_images w # post) s) = 0
          then cleanup_calls else [])"
proof -
  have ap: "appends (\<lambda>c. \<not> is_rmi c) s (steps pre s)"
    using pre by (rule appends_steps)
  have none: "filter is_rmi (trace (final (steps pre s))) = []"
    using appends_filter [OF ap, of is_rmi] start by simp
  note shape = branch_shape [OF post, where pre = pre and s = s and w = w]
  show ?thesis
  proof (cases "steps pre s")
    case (Cont t)
    with shape obtain u where u: "steps (pre @ cleanup_local_images w # post) s = Cont u"
        "trace u = trace t @ cleanup_calls"
      by blast
    with none Cont show ?thesis by (simp add: filter_cleanup_calls del: steps.simps)
  next
    case (Exit rc t)
    with shape have e: "steps (pre @ cleanup_local_images w # post) s = Exit rc t" by blast
    have "rc \<noteq> 0" using steps_no_exit0 [where gs = pre and s = s and s' = t] nz Exit by auto
    with none Exit e show ?thesis by (simp del: steps.simps)
  qed
qed

text \<open>The three branches of the script that release, split at the cleanup.\<close>

lemma frontend_only_branch:
  "arg1 args = ''--frontend-only'' \<Longrightarrow>
   dispatch w prog args =
     steps ([print_status w ''Building and uploading frontend only...'',
             check_prerequisites w, build_and_upload_frontend w]
            @ cleanup_local_images w # [print_success w ''Frontend image uploaded successfully!''])"
  by (simp add: dispatch_def del: steps.simps)

lemma backend_only_branch:
  "arg1 args = ''--backend-only'' \<Longrightarrow>
   dispatch w prog args =
     steps ([print_status w ''Building and uploading backend only...'',
             check_prerequisites w, build_and_upload_backend w]
            @ cleanup_local_images w # [print_success w ''Backend image uploaded successfully!''])"
  by (simp add: dispatch_def del: steps.simps)

lemma all_branch:
  "arg1 args = '''' \<Longrightarrow>
   dispatch w prog args =
     steps ([print_status w ''Starting image upload process...'',
             check_prerequisites w, display_image_info w,
             build_and_upload_frontend w, build_and_upload_backend w]
            @ cleanup_local_images w #
              [print_success w ''All images uploaded successfully!'',
               print_status w ''You can now use these images in your deployment.''])"
  by (simp add: dispatch_def main_def del: steps.simps)

lemmas branch_facts = print_status_plain print_success_plain appends_emit emit_no_exit0
  no_rmi_check no_rmi_frontend no_rmi_backend display_appends
  check_no_exit0 display_no_exit0 frontend_no_exit0 backend_no_exit0

lemma rmi_of_run:
  assumes "arg1 args \<in> {'''', ''--frontend-only'', ''--backend-only''}"
  shows "filter is_rmi (trace (final (dispatch w prog args (initial f)))) =
         (if exit_code (dispatch w prog args (initial f)) = 0 then cleanup_calls else [])"
proof -
  have start: "trace (initial f) = []" by (simp add: initial_def)
  consider "arg1 args = ''''" | "arg1 args = ''--frontend-only''" | "arg1 args = ''--backend-only''"
    using assms by auto
  then show ?thesis
  proof cases
    case 1
    show ?thesis
      unfolding all_branch [OF 1]
      by (rule branch_rmi [OF _ _ _ start]) (auto simp add: branch_facts)
  next
    case 2
    show ?thesis
      unfolding frontend_only_branch [OF 2]
      by (rule branch_rmi [OF _ _ _ start]) (auto simp add: branch_facts)
  next
    case 3
    show ?thesis
      unfolding backend_only_branch [OF 3]
      by (rule branch_rmi [OF _ _ _ start]) (auto simp add: branch_facts)
  qed
qed

subsection \<open>Programs once started stay in the trace\<close>

lemma appends_subset:
  assumes "appends P s r"
  shows "set (trace s) \<subseteq> set (trace (final r))"
proof -
  have "take (length (trace s)) (trace (final r)) = trace s"
    using assms by (simp add: appends_def)
  then have "set (trace s) = set (take (length (trace s)) (trace (final r)))" by simp
  then show ?thesis using set_take_subset by fastforce
qed

lemma cleanup_appends: "appends is_rmi s (cleanup_local_images w s)"
  unfolding cleanup_local_images_def
  by (rule appends_steps) (auto simp add: appends_prims)

lemma steps_superset:
  assumes "\<And>h t. h \<in> set rest \<Longrightarrow> appends (\<lambda>c. True) t (h t)"
  shows "set (trace (final (g s))) \<subseteq> set (trace (final (steps (g # rest) s)))"
proof (cases "g s")
  case (Cont t)
  have "appends (\<lambda>c. True) t (steps rest t)"
    using assms by (rule appends_steps)
  then show ?thesis using Cont by (simp add: appends_subset)
next
  case (Exit rc t)
  then show ?thesis by simp
qed

lemma any_frontend: "appends (\<lambda>c. True) s (build_and_upload_frontend w s)"
  by (rule appends_mono [OF frontend_appends]) simp

lemma any_backend: "appends (\<lambda>c. True) s (build_and_upload_backend w s)"
  by (rule appends_mono [OF backend_appends]) simp

lemma any_cleanup: "appends (\<lambda>c. True) s (cleanup_local_images w s)"
  by (rule appends_mono [OF cleanup_appends]) simp

lemmas any_facts = any_frontend any_backend any_cleanup appends_emit
  print_status_plain print_success_plain

lemma frontend_reaches_build:
  assumes "has_dir w Frontend" and "env_local (fs s) \<noteq> None \<longrightarrow> status w (trace s) Cp = 0"
  shows "DockerBuild Frontend ''linux/amd64'' (FRONTEND_IMAGE_NAME @ '':'' @ IMAGE_TAG)
           \<in> set (trace (final (build_and_upload_frontend w s)))"
  using assms
  by (cases "env_local (fs s)") (simp_all add: build_and_upload_frontend_def prim_defs)

lemma backend_reaches_build:
  assumes "has_dir w Backend"
  shows "DockerBuild Backend ''linux/amd64'' (BACKEND_IMAGE_NAME @ '':'' @ IMAGE_TAG)
           \<in> set (trace (final (build_and_upload_backend w s)))"
  using assms
  by (simp add: build_and_upload_backend_def prim_defs)

lemma steps_after: "steps pre s = Cont t \<Longrightarrow> steps (pre @ rest) s = steps rest t"
  by (simp add: steps_append)

subsection \<open>Worlds that differ only in what docker rmi does\<close>

lemma agree_workflows:
  assumes "installed w' = installed w" and "has_dir w' = has_dir w"
      and "\<forall>h c. \<not> is_rmi c \<longrightarrow> status w' h c = status w h c \<and> effect w' h c = effect w h c"
  shows "check_prerequisites w' = check_prerequisites w"
    and "build_and_upload_frontend w' = build_and_upload_frontend w"
    and "build_and_upload_backend w' = build_and_upload_backend w"
    and "display_image_info w' = display_image_info w"
proof -
  have run_eq: "run w' c = run w c" if "\<not> is_rmi c" for c
    using assms(3) that by (intro ext) (simp add: run_def)
  have must_eq: "must w' c = must w c" if "\<not> is_rmi c" for c
    using run_eq [OF that] by (intro ext) (simp add: must_def)
  have cd_eq: "cd w' = cd w"
    using assms(2) by (intro ext) (simp add: cd_def)
  have cp_eq: "cp_env w' = cp_env w"
    using assms(3) by (intro ext) (simp add: cp_env_def)
  have mv_eq: "mv_env w' = mv_env w"
    using assms(3) by (intro ext) (simp add: mv_env_def)
  have login_eq: "ecr_login w' = ecr_login w"
    by (intro ext) (simp add: ecr_login_def run_eq must_eq)
  show "check_prerequisites w' = check_prerequisites w"
    using assms(1)
    by (simp add: check_prerequisites_def command_exists_def print_status_plain
          print_success_plain print_warning_plain print_error_plain
          del: steps.simps cong: if_cong)
  show "build_and_upload_frontend w' = build_and_upload_frontend w"
    by (simp add: build_and_upload_frontend_def must_eq cd_eq cp_eq mv_eq login_eq
          print_status_plain print_success_plain del: steps.simps cong: if_cong)
  show "build_and_upload_backend w' = build_and_upload_backend w"
    by (simp add: build_and_upload_backend_def must_eq cd_eq login_eq
          print_status_plain print_success_plain del: steps.simps)
  show "display_image_info w' = display_image_info w"
    by (simp add: display_image_info_def print_status_plain del: steps.simps)
qed

lemma branch_code:
  assumes "\<And>g. g \<in> set post \<Longrightarrow> \<exists>l. g = emit l"
  shows "exit_code (steps (pre @ cleanup_local_images w # post) s) = exit_code (steps pre s)"
proof (cases "steps pre s")
  case (Cont t)
  with branch_shape [OF assms, where pre = pre and s = s and w = w]
  obtain u where "steps (pre @ cleanup_local_images w # post) s = Cont u" by blast
  with Cont show ?thesis by (simp del: steps.simps)
next
  case (Exit rc t)
  with branch_shape [OF assms, where pre = pre and s = s and w = w]
  have "steps (pre @ cleanup_local_images w # post) s = Exit rc t" by blast
  with Exit show ?thesis by (simp del: steps.simps)
qed

lemma code_of_run:
  assumes "installed w' = installed w" and "has_dir w' = has_dir w"
      and "\<forall>h c. \<not> is_rmi c \<longrightarrow> status w' h c = status w h c \<and> effect w' h c = effect w h c"
  shows "exit_code (dispatch w' prog args s) = exit_code (dispatch w prog args s)"
proof -
  note eqs = agree_workflows [OF assms]
  have code: "exit_code (steps (pre @ cleanup_local_images v # post) s) = exit_code (steps pre s)"
    if "set post \<subseteq> {print_success v ''All images uploaded successfully!'',
          print_status v ''You can now use these images in your deployment.'',
          print_success v ''Frontend image uploaded successfully!'',
          print_success v ''Backend image uploaded successfully!''}" for pre post v
    using that
    by (intro branch_code) (auto simp add: print_status_plain print_success_plain)
  consider "arg1 args = ''''" | "arg1 args = ''--frontend-only''"
    | "arg1 args = ''--backend-only''"
    | "arg1 args = ''--help'' \<or> arg1 args = ''-h''"
    | "arg1 args \<notin> {'''', ''--frontend-only'', ''--backend-only'', ''--help'', ''-h''}"
    by auto
  then show ?thesis
  proof cases
    case 1
    have "steps [print_status w' ''Starting image upload process...'',
             check_prerequisites w', display_image_info w',
             build_and_upload_frontend w', build_and_upload_backend w'] =
          steps [print_status w ''Starting image upload process...'',
             check_prerequisites w, display_image_info w,
             build_and_upload_frontend w, build_and_upload_backend w]"
      by (simp add: eqs print_status_plain del: steps.simps)
    then show ?thesis
      unfolding all_branch [OF 1] by (simp add: code del: steps.simps append.simps)
  next
    case 2
    have "steps [print_status w' ''Building and uploading frontend only...'',
             check_prerequisites w', build_and_upload_frontend w'] =
          steps [print_status w ''Building and uploading frontend only...'',
             check_prerequisites w, build_and_upload_frontend w]"
      by (simp add: eqs print_status_plain del: steps.simps)
    then show ?thesis
      unfolding frontend_only_branch [OF 2] by (simp add: code del: steps.simps append.simps)
  next
    case 3
    have "steps [print_status w' ''Building and uploading backend only...'',
             check_prerequisites w', build_and_upload_backend w'] =
          steps [print_status w ''Building and uploading backend only...'',
             check_prerequisites w, build_and_upload_backend w]"
      by (simp add: eqs print_status_plain del: steps.simps)
    then show ?thesis
      unfolding backend_only_branch [OF 3] by (simp add: code del: steps.simps append.simps)
  next
    case 4
    then have "dispatch w' prog args = dispatch w prog args"
      by (auto simp add: dispatch_def Let_def simp del: steps.simps)
    then show ?thesis by simp
  next
    case 5
    then have branch: "dispatch v prog args =
        steps [print_error v (''Unknown option: '' @ arg1 args),
               echo ''Use --help for usage information'', exit_with 1]" for v
      by (simp add: dispatch_def Let_def del: steps.simps)
    obtain l l' where "print_error w (''Unknown option: '' @ arg1 args) = emit l"
        and "print_error w' (''Unknown option: '' @ arg1 args) = emit l'"
      using print_error_emit by metis
    then show ?thesis
      by (simp add: branch echo_def emit_def exit_with_def)
  qed
qed

subsection \<open>A run in which every step succeeds\<close>

lemma frontend_succeeds:
  assumes "has_dir w Frontend"
      and "\<forall>h c. \<not> is_rmi c \<and> c \<noteq> AwsGetLoginPassword AWS_REGION \<longrightarrow> status w h c = 0"
  shows "build_and_upload_frontend w s = Cont (final (build_and_upload_frontend w s))"
    and "filter (\<lambda>c. is_tag c \<or> is_push c) (trace (final (build_and_upload_frontend w s))) =
         filter (\<lambda>c. is_tag c \<or> is_push c) (trace s) @
           [DockerTag (FRONTEND_IMAGE_NAME @ '':'' @ IMAGE_TAG)
              (ECR_URL @ ''/'' @ FRONTEND_IMAGE_NAME @ '':'' @ IMAGE_TAG),
            DockerPush (ECR_URL @ ''/'' @ FRONTEND_IMAGE_NAME @ '':'' @ IMAGE_TAG)]"
  using assms
  by (cases "env_local (fs s)"; simp add: build_and_upload_frontend_def prim_defs)+

lemma backend_succeeds:
  assumes "has_dir w Backend"
      and "\<forall>h c. \<not> is_rmi c \<and> c \<noteq> AwsGetLoginPassword AWS_REGION \<longrightarrow> status w h c = 0"
  shows "build_and_upload_backend w s = Cont (final (build_and_upload_backend w s))"
    and "filter (\<lambda>c. is_tag c \<or> is_push c) (trace (final (build_and_upload_backend w s))) =
         filter (\<lambda>c. is_tag c \<or> is_push c) (trace s) @
           [DockerTag (BACKEND_IMAGE_NAME @ '':'' @ IMAGE_TAG)
              (ECR_URL @ ''/'' @ BACKEND_IMAGE_NAME @ '':'' @ IMAGE_TAG),
            DockerPush (ECR_URL @ ''/'' @ BACKEND_IMAGE_NAME @ '':'' @ IMAGE_TAG)]"
  using assms
  by (simp_all add: build_and_upload_backend_def prim_defs)

lemma branch_cont:
  assumes "\<And>g. g \<in> set post \<Longrightarrow> \<exists>l. g = emit l" and "steps pre s = Cont t"
  shows "\<exists>u. steps (pre @ cleanup_local_images w # post) s = Cont u \<and>
             trace u = trace t @ cleanup_calls"
  using branch_shape [OF assms(1)] assms(2) by blast

subsection \<open>The two workflows of a run without argument\<close>

lemma main_entry_facts:
  assumes "installed w ''docker''" and "installed w ''aws''"
  shows "steps [print_status w ''Starting image upload process...'', check_prerequisites w,
                display_image_info w] (initial f) = Cont (main_entry w f)"
    and "trace (main_entry w f) = []"
    and "fs (main_entry w f) = f"
  unfolding main_entry_def using assms
  by (simp_all add: check_prerequisites_eq display_image_info_eq print_status_plain emit_def
        initial_def)

lemma branch_exit:
  assumes "\<And>g. g \<in> set post \<Longrightarrow> \<exists>l. g = emit l" and "steps pre s = Exit rc t"
  shows "steps (pre @ cleanup_local_images w # post) s = Exit rc t"
  using branch_shape [OF assms(1)] assms(2) by blast

lemma main_workflows:
  assumes "arg1 args = ''''" and "installed w ''docker''" and "installed w ''aws''"
  shows "steps [print_status w ''Starting image upload process...'', check_prerequisites w,
                display_image_info w, build_and_upload_frontend w, build_and_upload_backend w]
           (initial f) =
         steps [build_and_upload_frontend w, build_and_upload_backend w] (main_entry w f)"
  using steps_after [OF main_entry_facts(1) [OF assms(2,3)],
          where rest = "[build_and_upload_frontend w, build_and_upload_backend w]"]
  by simp

lemma main_posts:
  "g \<in> set [print_success w ''All images uploaded successfully!'',
             print_status w ''You can now use these images in your deployment.''] \<Longrightarrow>
   \<exists>l. g = emit l"
  by (auto simp add: print_status_plain print_success_plain)

section \<open>The prerequisite check\<close>

text \<open>
  C3. In each of the three modes that release (no argument, \<^verbatim>\<open>--frontend-only\<close>,
  \<^verbatim>\<open>--backend-only\<close>), when \<^verbatim>\<open>docker\<close> or \<^verbatim>\<open>aws\<close> is not installed the script exits with
  status 1 and has started no external program at all: no build, login, tag or push for
  any component. The two files are as they were.
\<close>

theorem missing_tool_aborts:
  assumes "arg1 args \<in> {'''', ''--frontend-only'', ''--backend-only''}"
      and "\<not> installed w ''docker'' \<or> \<not> installed w ''aws''"
  shows "fst (release_sh w prog args f) = 1 \<and> trace (snd (release_sh w prog args f)) = []
         \<and> fs (snd (release_sh w prog args f)) = f"
  using assms
  by (auto simp add: fst_release_sh snd_release_sh dispatch_def main_def
        check_prerequisites_eq print_status_plain emit_def initial_def)

text \<open>The theorem in a world without \<^verbatim>\<open>docker\<close>, for a run without argument.\<close>

theorem missing_tool_aborts_witness:
  "fst (release_sh no_docker ''./release.sh'' [] env_present) = 1 \<and>
   trace (snd (release_sh no_docker ''./release.sh'' [] env_present)) = [] \<and>
   fs (snd (release_sh no_docker ''./release.sh'' [] env_present)) = env_present"
proof -
  have mode: "arg1 [] \<in> {'''', ''--frontend-only'', ''--backend-only''}"
    by (simp add: arg1_def)
  have missing: "\<not> installed no_docker ''docker'' \<or> \<not> installed no_docker ''aws''"
    by (simp add: no_docker_def all_ok_def)
  show ?thesis using missing_tool_aborts [OF mode missing] .
qed

text \<open>
  C9. With \<^verbatim>\<open>docker\<close> and \<^verbatim>\<open>aws\<close> installed and \<^verbatim>\<open>pnpm\<close> missing, the prerequisite check
  prints the warning, then its success line, and lets the script continue. The run then
  goes on to the image build: in a run without argument or with \<^verbatim>\<open>--frontend-only\<close> the
  frontend build is started, provided the script can enter \<^verbatim>\<open>frontend\<close> and the backup
  copy of an existing \<^verbatim>\<open>.env.local\<close> succeeds (the only steps between the check and the
  build that can end the script); with \<^verbatim>\<open>--backend-only\<close> the backend build is started,
  provided the script can enter \<^verbatim>\<open>backend\<close>.
\<close>

theorem missing_pnpm_only_warns:
  assumes "installed w ''docker''" and "installed w ''aws''" and "\<not> installed w ''pnpm''"
  shows "check_prerequisites w s =
           Cont (s\<lparr>out := out s @
             [Info ''Checking prerequisites...'',
              Warning ''pnpm not found, will use npm for frontend build'',
              Success ''Prerequisites check passed'']\<rparr>)
       \<and> (arg1 args \<in> {'''', ''--frontend-only''} \<and> has_dir w Frontend \<and>
            (env_local f \<noteq> None \<longrightarrow> status w [] Cp = 0) \<longrightarrow>
          DockerBuild Frontend ''linux/amd64'' (FRONTEND_IMAGE_NAME @ '':'' @ IMAGE_TAG)
            \<in> set (trace (snd (release_sh w prog args f))))
       \<and> (arg1 args = ''--backend-only'' \<and> has_dir w Backend \<longrightarrow>
          DockerBuild Backend ''linux/amd64'' (BACKEND_IMAGE_NAME @ '':'' @ IMAGE_TAG)
            \<in> set (trace (snd (release_sh w prog args f))))"
proof (intro conjI impI)
  show "check_prerequisites w s =
           Cont (s\<lparr>out := out s @
             [Info ''Checking prerequisites...'',
              Warning ''pnpm not found, will use npm for frontend build'',
              Success ''Prerequisites check passed'']\<rparr>)"
    using assms by (simp add: check_prerequisites_eq)
next
  assume a: "arg1 args \<in> {'''', ''--frontend-only''} \<and> has_dir w Frontend \<and>
            (env_local f \<noteq> None \<longrightarrow> status w [] Cp = 0)"
  let ?build = "DockerBuild Frontend ''linux/amd64'' (FRONTEND_IMAGE_NAME @ '':'' @ IMAGE_TAG)"
  have reach: "?build \<in> set (trace (final (build_and_upload_frontend w t)))"
    if "trace t = []" and "fs t = f" for t
    using a that by (intro frontend_reaches_build) simp_all
  from a consider "arg1 args = ''''" | "arg1 args = ''--frontend-only''" by auto
  then show "?build \<in> set (trace (snd (release_sh w prog args f)))"
  proof cases
    case 1
    let ?pre = "[print_status w ''Starting image upload process...'', check_prerequisites w,
                 display_image_info w]"
    let ?rest = "[build_and_upload_backend w, cleanup_local_images w,
           print_success w ''All images uploaded successfully!'',
           print_status w ''You can now use these images in your deployment.'']"
    define t where "t = final (steps ?pre (initial f))"
    have pre: "steps ?pre (initial f) = Cont t"
      unfolding t_def using assms
      by (simp add: check_prerequisites_eq display_image_info_eq print_status_plain emit_def)
    have t: "trace t = []" "fs t = f"
      unfolding t_def using assms
      by (simp_all add: check_prerequisites_eq display_image_info_eq print_status_plain emit_def
            initial_def)
    have "dispatch w prog args = steps (?pre @ (build_and_upload_frontend w # ?rest))"
      using 1 by (simp add: dispatch_def main_def del: steps.simps)
    then have run: "dispatch w prog args (initial f) =
        steps (build_and_upload_frontend w # ?rest) t"
      using steps_after [OF pre] by simp
    have "set (trace (final (build_and_upload_frontend w t))) \<subseteq>
          set (trace (final (dispatch w prog args (initial f))))"
      unfolding run by (rule steps_superset) (auto simp add: any_facts)
    with reach [OF t] show ?thesis by (auto simp add: snd_release_sh)
  next
    case 2
    let ?pre = "[print_status w ''Building and uploading frontend only...'',
                 check_prerequisites w]"
    let ?rest = "[cleanup_local_images w,
           print_success w ''Frontend image uploaded successfully!'']"
    define t where "t = final (steps ?pre (initial f))"
    have pre: "steps ?pre (initial f) = Cont t"
      unfolding t_def using assms
      by (simp add: check_prerequisites_eq print_status_plain emit_def)
    have t: "trace t = []" "fs t = f"
      unfolding t_def using assms
      by (simp_all add: check_prerequisites_eq print_status_plain emit_def initial_def)
    have "dispatch w prog args = steps (?pre @ (build_and_upload_frontend w # ?rest))"
      using 2 by (simp add: dispatch_def del: steps.simps)
    then have run: "dispatch w prog args (initial f) =
        steps (build_and_upload_frontend w # ?rest) t"
      using steps_after [OF pre] by simp
    have "set (trace (final (build_and_upload_frontend w t))) \<subseteq>
          set (trace (final (dispatch w prog args (initial f))))"
      unfolding run by (rule steps_superset) (auto simp add: any_facts)
    with reach [OF t] show ?thesis by (auto simp add: snd_release_sh)
  qed
next
  assume b: "arg1 args = ''--backend-only'' \<and> has_dir w Backend"
  let ?build = "DockerBuild Backend ''linux/amd64'' (BACKEND_IMAGE_NAME @ '':'' @ IMAGE_TAG)"
  let ?pre = "[print_status w ''Building and uploading backend only...'',
               check_prerequisites w]"
  let ?rest = "[cleanup_local_images w,
         print_success w ''Backend image uploaded successfully!'']"
  define t where "t = final (steps ?pre (initial f))"
  have pre: "steps ?pre (initial f) = Cont t"
    unfolding t_def using assms
    by (simp add: check_prerequisites_eq print_status_plain emit_def)
  have "dispatch w prog args = steps (?pre @ (build_and_upload_backend w # ?rest))"
    using b by (simp add: dispatch_def del: steps.simps)
  then have run: "dispatch w prog args (initial f) =
      steps (build_and_upload_backend w # ?rest) t"
    using steps_after [OF pre] by simp
  have "set (trace (final (build_and_upload_backend w t))) \<subseteq>
        set (trace (final (dispatch w prog args (initial f))))"
    unfolding run by (rule steps_superset) (auto simp add: any_facts)
  moreover have "?build \<in> set (trace (final (build_and_upload_backend w t)))"
    using b by (intro backend_reaches_build) simp
  ultimately show "?build \<in> set (trace (snd (release_sh w prog args f)))"
    by (auto simp add: snd_release_sh)
qed

text \<open>The theorem in a world that lacks only \<^verbatim>\<open>pnpm\<close>.\<close>

theorem missing_pnpm_only_warns_witness:
  "check_prerequisites no_pnpm (initial env_present) =
     Cont \<lparr>cwd = Root, fs = env_present, trace = [], out =
             [Info ''Checking prerequisites...'',
              Warning ''pnpm not found, will use npm for frontend build'',
              Success ''Prerequisites check passed'']\<rparr>
   \<and> DockerBuild Frontend ''linux/amd64'' ''agents/frontend:latest''
        \<in> set (trace (snd (release_sh no_pnpm ''./release.sh'' [] env_present)))
   \<and> DockerBuild Backend ''linux/amd64'' ''agents/backend:latest''
        \<in> set (trace (snd (release_sh no_pnpm ''./release.sh'' [''--backend-only''] env_present)))"
proof -
  have tools: "installed no_pnpm ''docker''" "installed no_pnpm ''aws''"
      "\<not> installed no_pnpm ''pnpm''"
    by (simp_all add: no_pnpm_def all_ok_def)
  have fe: "arg1 [] \<in> {'''', ''--frontend-only''} \<and> has_dir no_pnpm Frontend \<and>
      (env_local env_present \<noteq> None \<longrightarrow> status no_pnpm [] Cp = 0)"
    by (simp add: arg1_def no_pnpm_def all_ok_def)
  have be: "arg1 [''--backend-only''] = ''--backend-only'' \<and> has_dir no_pnpm Backend"
    by (simp add: arg1_def no_pnpm_def all_ok_def)
  note thm1 = missing_pnpm_only_warns [OF tools, where s = "initial env_present" and args = "[]"
      and f = env_present and prog = "''./release.sh''"]
  note thm2 = missing_pnpm_only_warns [OF tools, where args = "[''--backend-only'']"
      and f = env_present and prog = "''./release.sh''"]
  show ?thesis
    using thm1 [THEN conjunct1] thm1 [THEN conjunct2, THEN conjunct1, THEN mp, OF fe]
      thm2 [THEN conjunct2, THEN conjunct2, THEN mp, OF be]
    by (simp add: initial_def config_defs)
qed

section \<open>A component's workflow\<close>

text \<open>
  C4. When the image build of a component fails, that component's workflow fails and the
  programs it has started include no login, no tag and no push. For the frontend the
  build is started after \<^verbatim>\<open>cp\<close> when \<^verbatim>\<open>.env.local\<close> exists, which is the history its exit
  status is read at; for the backend it is the first program of the workflow.
\<close>

theorem build_failure_short_circuits:
  "(status w (trace s @ (if env_local (fs s) = None then [] else [Cp]))
       (DockerBuild Frontend ''linux/amd64'' (FRONTEND_IMAGE_NAME @ '':'' @ IMAGE_TAG)) \<noteq> 0 \<longrightarrow>
      failed (build_and_upload_frontend w s) \<and>
      appends (\<lambda>c. \<not> is_auth c \<and> \<not> is_tag c \<and> \<not> is_push c) s (build_and_upload_frontend w s))
   \<and> (status w (trace s)
       (DockerBuild Backend ''linux/amd64'' (BACKEND_IMAGE_NAME @ '':'' @ IMAGE_TAG)) \<noteq> 0 \<longrightarrow>
      failed (build_and_upload_backend w s) \<and>
      appends (\<lambda>c. \<not> is_auth c \<and> \<not> is_tag c \<and> \<not> is_push c) s (build_and_upload_backend w s))"
proof (intro conjI impI)
  assume a: "status w (trace s @ (if env_local (fs s) = None then [] else [Cp]))
       (DockerBuild Frontend ''linux/amd64'' (FRONTEND_IMAGE_NAME @ '':'' @ IMAGE_TAG)) \<noteq> 0"
  show "failed (build_and_upload_frontend w s)"
    using a by (cases "env_local (fs s)") (simp_all add: build_and_upload_frontend_def prim_defs)
  show "appends (\<lambda>c. \<not> is_auth c \<and> \<not> is_tag c \<and> \<not> is_push c) s (build_and_upload_frontend w s)"
    using a by (cases "env_local (fs s)")
      (simp_all add: build_and_upload_frontend_def prim_defs appends_def)
next
  assume b: "status w (trace s)
       (DockerBuild Backend ''linux/amd64'' (BACKEND_IMAGE_NAME @ '':'' @ IMAGE_TAG)) \<noteq> 0"
  show "failed (build_and_upload_backend w s)"
    using b by (simp add: build_and_upload_backend_def prim_defs)
  show "appends (\<lambda>c. \<not> is_auth c \<and> \<not> is_tag c \<and> \<not> is_push c) s (build_and_upload_backend w s)"
    using b by (simp add: build_and_upload_backend_def prim_defs appends_def)
qed

text \<open>The theorem in a world where every build fails: each workflow stops at its build.\<close>

theorem build_failure_short_circuits_witness:
  "trace (final (build_and_upload_frontend builds_fail (initial env_present))) =
     [Cp, DockerBuild Frontend ''linux/amd64'' ''agents/frontend:latest'']
   \<and> failed (build_and_upload_frontend builds_fail (initial env_present))
   \<and> trace (final (build_and_upload_backend builds_fail (initial env_present))) =
     [DockerBuild Backend ''linux/amd64'' ''agents/backend:latest'']
   \<and> failed (build_and_upload_backend builds_fail (initial env_present))"
  using build_failure_short_circuits [where w = builds_fail and s = "initial env_present"]
  by (simp add: build_and_upload_frontend_def build_and_upload_backend_def prim_defs
        world_defs config_defs)

text \<open>
  C8. A login that has succeeded for the first component should not be put at risk again
  for the next one; the comment of line 120 says as much: "Login to ECR (if not already
  logged in)". The script does not do this: nothing records that the login succeeded,
  and line 122 runs the login pipeline of the backend workflow without any condition.
  Here \<^verbatim>\<open>docker login\<close> succeeds the first time and fails the second time: the frontend
  image is pushed, the backend image is built, and the run ends with status 1 at the
  second login, before the backend image is tagged and pushed.
\<close>

theorem relogin_failure_ends_run:
  "fst (release_sh second_login_fails ''./release.sh'' [] env_absent) = 1
   \<and> trace (snd (release_sh second_login_fails ''./release.sh'' [] env_absent)) =
       [DockerBuild Frontend ''linux/amd64'' ''agents/frontend:latest'',
        AwsGetLoginPassword ''eu-central-1'',
        DockerLogin ''AWS'' ''654553612832.dkr.ecr.eu-central-1.amazonaws.com'',
        DockerTag ''agents/frontend:latest''
          ''654553612832.dkr.ecr.eu-central-1.amazonaws.com/agents/frontend:latest'',
        DockerPush ''654553612832.dkr.ecr.eu-central-1.amazonaws.com/agents/frontend:latest'',
        DockerBuild Backend ''linux/amd64'' ''agents/backend:latest'',
        AwsGetLoginPassword ''eu-central-1'',
        DockerLogin ''AWS'' ''654553612832.dkr.ecr.eu-central-1.amazonaws.com'']"
  by (simp add: release_sh_def dispatch_def main_def arg1_def check_prerequisites_eq
        display_image_info_eq build_and_upload_frontend_def build_and_upload_backend_def
        prim_defs second_login_fails_def all_ok_def initial_def env_absent_def config_defs)

text \<open>
  The same in general, for the backend workflow entered in any state, whatever has
  happened before in the run (a successful login included): once it has entered its
  directory and built its image, it starts \<^verbatim>\<open>aws ecr get-login-password\<close> and
  \<^verbatim>\<open>docker login\<close> again, and when this login fails the script ends there with the status
  of \<^verbatim>\<open>docker login\<close>.
\<close>

lemma backend_logs_in_again:
  assumes "has_dir w Backend"
      and "status w (trace s)
             (DockerBuild Backend ''linux/amd64'' (BACKEND_IMAGE_NAME @ '':'' @ IMAGE_TAG)) = 0"
  shows "take (length (trace s) + 3) (trace (final (build_and_upload_backend w s))) =
           trace s @
             [DockerBuild Backend ''linux/amd64'' (BACKEND_IMAGE_NAME @ '':'' @ IMAGE_TAG),
              AwsGetLoginPassword AWS_REGION,
              DockerLogin ''AWS'' ECR_URL]
       \<and> (status w
            (trace s @
               [DockerBuild Backend ''linux/amd64'' (BACKEND_IMAGE_NAME @ '':'' @ IMAGE_TAG),
                AwsGetLoginPassword AWS_REGION])
            (DockerLogin ''AWS'' ECR_URL) \<noteq> 0 \<longrightarrow>
          exit_code (build_and_upload_backend w s) =
            status w
              (trace s @
                 [DockerBuild Backend ''linux/amd64'' (BACKEND_IMAGE_NAME @ '':'' @ IMAGE_TAG),
                  AwsGetLoginPassword AWS_REGION])
              (DockerLogin ''AWS'' ECR_URL)
          \<and> trace (final (build_and_upload_backend w s)) =
            trace s @
              [DockerBuild Backend ''linux/amd64'' (BACKEND_IMAGE_NAME @ '':'' @ IMAGE_TAG),
               AwsGetLoginPassword AWS_REGION,
               DockerLogin ''AWS'' ECR_URL])"
  using assms
  by (simp add: build_and_upload_backend_def prim_defs)

section \<open>Backup and restoration of the frontend's configuration file\<close>

text \<open>
  C1 as stated, that \<^verbatim>\<open>.env.local\<close> is after the frontend workflow what it was before,
  whatever state it was in, fails: \<^verbatim>\<open>.env.local\<close> is absent, a \<^verbatim>\<open>.env.local.backup\<close> is
  there (a run that failed between backup and restoration leaves one), every step
  succeeds. The workflow does not exit, and its restoration step renames the old backup
  to \<^verbatim>\<open>.env.local\<close>: the absent file is now present.
\<close>

theorem snapshot_roundtrip_counterexample:
  "env_local stale_backup = None \<and>
   build_and_upload_frontend all_ok (initial stale_backup) =
     Cont (final (build_and_upload_frontend all_ok (initial stale_backup))) \<and>
   env_local (fs (final (build_and_upload_frontend all_ok (initial stale_backup)))) = Some ''OLD=1''"
  by (simp add: build_and_upload_frontend_def prim_defs world_defs)

text \<open>
  Restoration is an ordinary step near the end of the workflow and the script has no
  handler for exits: a failing step skips it. Here the build rewrites \<^verbatim>\<open>.env.local\<close> and
  fails; the rewritten file stays and the backup is left behind.
\<close>

lemma failed_build_skips_restore:
  "fs (final (build_and_upload_frontend build_rewrites_env_and_fails (initial env_present))) =
     \<lparr>env_local = Some ''VITE_API_URL=x'', env_backup = Some ''KEY=1''\<rparr>
   \<and> exit_code (build_and_upload_frontend build_rewrites_env_and_fails (initial env_present)) = 1"
  by (simp add: build_and_upload_frontend_def prim_defs world_defs)

text \<open>
  C1, amended. (i) When the external programs leave the two files alone and no
  \<^verbatim>\<open>.env.local.backup\<close> exists while \<^verbatim>\<open>.env.local\<close> is absent, \<^verbatim>\<open>.env.local\<close> is after the
  frontend workflow what it was before, on every exit path. (ii) When \<^verbatim>\<open>.env.local\<close> is
  present and the workflow runs to its end, \<^verbatim>\<open>.env.local\<close> has its former content again,
  even if the external programs rewrote it, as long as they left the backup alone.
\<close>

theorem snapshot_roundtrip:
  "((\<forall>h k f. effect w h k f = f) \<and> (env_local (fs s) = None \<longrightarrow> env_backup (fs s) = None) \<longrightarrow>
       env_local (fs (final (build_and_upload_frontend w s))) = env_local (fs s))
   \<and> ((\<forall>h k f. env_backup (effect w h k f) = env_backup f) \<and> env_local (fs s) = Some c \<and>
       build_and_upload_frontend w s = Cont s' \<longrightarrow> env_local (fs s') = Some c)"
proof (intro conjI impI)
  assume a: "(\<forall>h k f. effect w h k f = f) \<and> (env_local (fs s) = None \<longrightarrow> env_backup (fs s) = None)"
  then have pure: "\<forall>h k f. effect w h k f = f"
    and stale: "env_local (fs s) = None \<longrightarrow> env_backup (fs s) = None"
    by blast+
  show "env_local (fs (final (build_and_upload_frontend w s))) = env_local (fs s)"
    using pure stale
    by (cases "env_local (fs s)") (simp_all add: build_and_upload_frontend_def prim_defs)
next
  assume b: "(\<forall>h k f. env_backup (effect w h k f) = env_backup f) \<and> env_local (fs s) = Some c \<and>
       build_and_upload_frontend w s = Cont s'"
  then have keep: "\<forall>h k f. env_backup (effect w h k f) = env_backup f"
    and present: "env_local (fs s) = Some c"
    and ran: "build_and_upload_frontend w s = Cont s'"
    by blast+
  show "env_local (fs s') = Some c"
    using keep present ran
    by (clarsimp simp add: build_and_upload_frontend_def prim_defs split: if_splits)
qed

text \<open>
  The theorem (i) in a world where the build fails and (ii) in a world where the build
  rewrites \<^verbatim>\<open>.env.local\<close> and every step succeeds.
\<close>

theorem snapshot_roundtrip_witness:
  "env_local (fs (final (build_and_upload_frontend builds_fail (initial env_present)))) = Some ''KEY=1''
   \<and> build_and_upload_frontend build_rewrites_env (initial env_present) =
       Cont (final (build_and_upload_frontend build_rewrites_env (initial env_present)))
   \<and> env_local (fs (final (build_and_upload_frontend build_rewrites_env (initial env_present)))) =
       Some ''KEY=1''"
proof -
  have pure: "\<forall>h k f. effect builds_fail h k f = f"
    by (simp add: builds_fail_def all_ok_def)
  have fresh: "env_local (fs (initial env_present)) = None \<longrightarrow>
      env_backup (fs (initial env_present)) = None"
    by (simp add: initial_def env_present_def)
  have keep: "\<forall>h k f. env_backup (effect build_rewrites_env h k f) = env_backup f"
    by (simp add: build_rewrites_env_def all_ok_def)
  have present: "env_local (fs (initial env_present)) = Some ''KEY=1''"
    by (simp add: initial_def env_present_def)
  have ran: "build_and_upload_frontend build_rewrites_env (initial env_present) =
       Cont (final (build_and_upload_frontend build_rewrites_env (initial env_present)))"
    by (simp add: build_and_upload_frontend_def prim_defs build_rewrites_env_def all_ok_def
          initial_def env_present_def)
  have one: "env_local (fs (final (build_and_upload_frontend builds_fail (initial env_present)))) =
      env_local (fs (initial env_present))"
    using snapshot_roundtrip [THEN conjunct1, THEN mp, OF conjI [OF pure fresh]] .
  have two: "env_local (fs (final (build_and_upload_frontend build_rewrites_env (initial env_present)))) =
      Some ''KEY=1''"
    using snapshot_roundtrip [THEN conjunct2, THEN mp, OF conjI [OF keep conjI [OF present ran]]] .
  show ?thesis using one two ran present by simp
qed

section \<open>The run without argument\<close>

text \<open>
  C2 as stated, that a failure of the frontend workflow does not prevent an attempt of
  the backend workflow, fails: the script runs under \<^verbatim>\<open>set -e\<close>, so the first failing
  step ends the whole process. Here only the frontend build fails (the backend build
  would succeed): the run ends with status 1, the frontend build is the only program
  started, and the first message of the backend workflow is never printed.
\<close>

theorem all_mode_isolation_counterexample:
  "fst (release_sh frontend_build_fails ''./release.sh'' [] env_absent) = 1
   \<and> trace (snd (release_sh frontend_build_fails ''./release.sh'' [] env_absent)) =
       [DockerBuild Frontend ''linux/amd64'' ''agents/frontend:latest'']
   \<and> Info ''Building and uploading backend image...''
       \<notin> set (out (snd (release_sh frontend_build_fails ''./release.sh'' [] env_absent)))"
  by (simp add: release_sh_def dispatch_def main_def arg1_def check_prerequisites_eq
        display_image_info_eq build_and_upload_frontend_def prim_defs
        frontend_build_fails_def all_ok_def initial_def env_absent_def config_defs)

text \<open>
  C2, amended. In a run without argument that passes the prerequisite check, the frontend
  workflow runs first and the backend workflow runs second, only when the frontend
  workflow has succeeded. When the frontend workflow fails, the run ends there with its
  non-zero status, in the state the frontend workflow left: only programs of the
  frontend workflow have been started. When it succeeds, the backend workflow starts in
  the state it left and adds only its own programs; its failure ends the run with its
  status, and its success leads to the cleanup and to exit status 0.
\<close>

theorem all_mode_runs_frontend_then_backend:
  assumes "arg1 args = ''''" and "installed w ''docker''" and "installed w ''aws''"
  shows "(build_and_upload_frontend w (main_entry w f) = Exit rc s1 \<longrightarrow>
            release_sh w prog args f = (rc, s1) \<and> rc \<noteq> 0 \<and>
            list_all frontend_call (trace s1))
       \<and> (build_and_upload_frontend w (main_entry w f) = Cont s1 \<and>
          build_and_upload_backend w s1 = Exit rc s2 \<longrightarrow>
            release_sh w prog args f = (rc, s2) \<and> rc \<noteq> 0 \<and>
            list_all frontend_call (trace s1) \<and> appends backend_call s1 (Exit rc s2))
       \<and> (build_and_upload_frontend w (main_entry w f) = Cont s1 \<and>
          build_and_upload_backend w s1 = Cont s2 \<longrightarrow>
            fst (release_sh w prog args f) = 0 \<and>
            list_all frontend_call (trace s1) \<and> appends backend_call s1 (Cont s2) \<and>
            trace (snd (release_sh w prog args f)) = trace s2 @
              [DockerRmi (FRONTEND_IMAGE_NAME @ '':'' @ IMAGE_TAG),
               DockerRmi (BACKEND_IMAGE_NAME @ '':'' @ IMAGE_TAG),
               DockerRmi (ECR_URL @ ''/'' @ FRONTEND_IMAGE_NAME @ '':'' @ IMAGE_TAG),
               DockerRmi (ECR_URL @ ''/'' @ BACKEND_IMAGE_NAME @ '':'' @ IMAGE_TAG)])"
proof -
  note work = main_workflows [OF assms, of f]
  note start = main_entry_facts(2) [OF assms(2,3), of f]
  have fcalls: "list_all frontend_call (trace t)"
    if "build_and_upload_frontend w (main_entry w f) = r" and "final r = t" for r t
    using frontend_appends [of "main_entry w f" w] that start by (auto simp add: appends_def)
  show ?thesis
  proof (intro conjI impI)
    assume a: "build_and_upload_frontend w (main_entry w f) = Exit rc s1"
    have "steps [build_and_upload_frontend w, build_and_upload_backend w] (main_entry w f) =
          Exit rc s1"
      using a by simp
    with work have "steps [print_status w ''Starting image upload process...'',
        check_prerequisites w, display_image_info w, build_and_upload_frontend w,
        build_and_upload_backend w] (initial f) = Exit rc s1"
      by (simp only:)
    from branch_exit [OF main_posts [where w = w] this, where w = w]
    have "dispatch w prog args (initial f) = Exit rc s1"
      unfolding all_branch [OF assms(1)] by blast
    then show "release_sh w prog args f = (rc, s1)" by (simp add: release_sh_def)
    show "rc \<noteq> 0" using a frontend_no_exit0 [of w "main_entry w f" s1] by auto
    show "list_all frontend_call (trace s1)" using fcalls [OF a] by simp
  next
    assume a: "build_and_upload_frontend w (main_entry w f) = Cont s1 \<and>
          build_and_upload_backend w s1 = Exit rc s2"
    have "steps [build_and_upload_frontend w, build_and_upload_backend w] (main_entry w f) =
          Exit rc s2"
      using a by simp
    with work have "steps [print_status w ''Starting image upload process...'',
        check_prerequisites w, display_image_info w, build_and_upload_frontend w,
        build_and_upload_backend w] (initial f) = Exit rc s2"
      by (simp only:)
    from branch_exit [OF main_posts [where w = w] this, where w = w]
    have "dispatch w prog args (initial f) = Exit rc s2"
      unfolding all_branch [OF assms(1)] by blast
    then show "release_sh w prog args f = (rc, s2)" by (simp add: release_sh_def)
    show "rc \<noteq> 0" using a backend_no_exit0 [of w s1 s2] by auto
    show "list_all frontend_call (trace s1)" using fcalls [of "Cont s1" s1] a by simp
    show "appends backend_call s1 (Exit rc s2)" using backend_appends [of s1 w] a by simp
  next
    assume a: "build_and_upload_frontend w (main_entry w f) = Cont s1 \<and>
          build_and_upload_backend w s1 = Cont s2"
    have "steps [build_and_upload_frontend w, build_and_upload_backend w] (main_entry w f) =
          Cont s2"
      using a by simp
    with work have "steps [print_status w ''Starting image upload process...'',
        check_prerequisites w, display_image_info w, build_and_upload_frontend w,
        build_and_upload_backend w] (initial f) = Cont s2"
      by (simp only:)
    from branch_cont [OF main_posts [where w = w] this, where w = w]
    obtain u where u: "dispatch w prog args (initial f) = Cont u"
        "trace u = trace s2 @ cleanup_calls"
      unfolding all_branch [OF assms(1)] by blast
    show "fst (release_sh w prog args f) = 0" using u by (simp add: release_sh_def)
    show "trace (snd (release_sh w prog args f)) = trace s2 @
              [DockerRmi (FRONTEND_IMAGE_NAME @ '':'' @ IMAGE_TAG),
               DockerRmi (BACKEND_IMAGE_NAME @ '':'' @ IMAGE_TAG),
               DockerRmi (ECR_URL @ ''/'' @ FRONTEND_IMAGE_NAME @ '':'' @ IMAGE_TAG),
               DockerRmi (ECR_URL @ ''/'' @ BACKEND_IMAGE_NAME @ '':'' @ IMAGE_TAG)]"
      using u by (simp add: release_sh_def cleanup_calls_def)
    show "list_all frontend_call (trace s1)" using fcalls [of "Cont s1" s1] a by simp
    show "appends backend_call s1 (Cont s2)" using backend_appends [of s1 w] a by simp
  qed
qed

text \<open>
  The theorem in three worlds: the frontend build fails; the second \<^verbatim>\<open>docker login\<close> (the
  one of the backend workflow) fails; every step succeeds.
\<close>

theorem all_mode_runs_frontend_then_backend_witness:
  "release_sh frontend_build_fails ''./release.sh'' [] env_absent =
     (1, final (build_and_upload_frontend frontend_build_fails
                  (main_entry frontend_build_fails env_absent)))
   \<and> release_sh second_login_fails ''./release.sh'' [] env_absent =
     (1, final (build_and_upload_backend second_login_fails
                  (final (build_and_upload_frontend second_login_fails
                            (main_entry second_login_fails env_absent)))))
   \<and> fst (release_sh all_ok ''./release.sh'' [] env_absent) = 0"
proof -
  have mode: "arg1 [] = ''''" by (simp add: arg1_def)
  have tools1: "installed frontend_build_fails ''docker''" "installed frontend_build_fails ''aws''"
    by (simp_all add: frontend_build_fails_def all_ok_def)
  have tools2: "installed second_login_fails ''docker''" "installed second_login_fails ''aws''"
    by (simp_all add: second_login_fails_def all_ok_def)
  have tools3: "installed all_ok ''docker''" "installed all_ok ''aws''"
    by (simp_all add: all_ok_def)
  let ?s1 = "final (build_and_upload_frontend frontend_build_fails
                  (main_entry frontend_build_fails env_absent))"
  have a: "build_and_upload_frontend frontend_build_fails
             (main_entry frontend_build_fails env_absent) = Exit 1 ?s1"
    by (simp add: main_entry_def check_prerequisites_eq display_image_info_eq
          build_and_upload_frontend_def prim_defs frontend_build_fails_def all_ok_def
          initial_def env_absent_def)
  let ?t1 = "final (build_and_upload_frontend second_login_fails
                  (main_entry second_login_fails env_absent))"
  let ?t2 = "final (build_and_upload_backend second_login_fails ?t1)"
  have b: "build_and_upload_frontend second_login_fails
             (main_entry second_login_fails env_absent) = Cont ?t1 \<and>
           build_and_upload_backend second_login_fails ?t1 = Exit 1 ?t2"
    by (simp add: main_entry_def check_prerequisites_eq display_image_info_eq
          build_and_upload_frontend_def build_and_upload_backend_def prim_defs
          second_login_fails_def all_ok_def initial_def env_absent_def)
  let ?u1 = "final (build_and_upload_frontend all_ok (main_entry all_ok env_absent))"
  let ?u2 = "final (build_and_upload_backend all_ok ?u1)"
  have c: "build_and_upload_frontend all_ok (main_entry all_ok env_absent) = Cont ?u1 \<and>
           build_and_upload_backend all_ok ?u1 = Cont ?u2"
    by (simp add: main_entry_def check_prerequisites_eq display_image_info_eq
          build_and_upload_frontend_def build_and_upload_backend_def prim_defs
          all_ok_def initial_def env_absent_def)
  show ?thesis
    using all_mode_runs_frontend_then_backend [OF mode tools1, THEN conjunct1, THEN mp, OF a]
      all_mode_runs_frontend_then_backend [OF mode tools2, THEN conjunct2, THEN conjunct1,
        THEN mp, OF b]
      all_mode_runs_frontend_then_backend [OF mode tools3, THEN conjunct2, THEN conjunct2,
        THEN mp, OF c]
    by blast
qed

text \<open>
  C6. In a run without argument where \<^verbatim>\<open>docker\<close> and \<^verbatim>\<open>aws\<close> are installed, both
  component directories can be entered and every program the workflows start succeeds
  (\<^verbatim>\<open>docker rmi\<close> may fail, and so may \<^verbatim>\<open>aws ecr get-login-password\<close> as long as the
  \<^verbatim>\<open>docker login\<close> it feeds succeeds), the exit status is 0 and the tag and push calls of
  the run are exactly: tag and push of the frontend image, then tag and push of the
  backend image, each with the remote reference \<^verbatim>\<open>$ECR_URL/$IMAGE_NAME:$IMAGE_TAG\<close> of its
  component.
\<close>

theorem full_success_run:
  assumes "arg1 args = ''''"
      and "installed w ''docker''" and "installed w ''aws''"
      and "has_dir w Frontend" and "has_dir w Backend"
      and "\<forall>h c. \<not> is_rmi c \<and> c \<noteq> AwsGetLoginPassword AWS_REGION \<longrightarrow> status w h c = 0"
  shows "fst (release_sh w prog args f) = 0
       \<and> filter (\<lambda>c. is_tag c \<or> is_push c) (trace (snd (release_sh w prog args f))) =
           [DockerTag (FRONTEND_IMAGE_NAME @ '':'' @ IMAGE_TAG)
              (ECR_URL @ ''/'' @ FRONTEND_IMAGE_NAME @ '':'' @ IMAGE_TAG),
            DockerPush (ECR_URL @ ''/'' @ FRONTEND_IMAGE_NAME @ '':'' @ IMAGE_TAG),
            DockerTag (BACKEND_IMAGE_NAME @ '':'' @ IMAGE_TAG)
              (ECR_URL @ ''/'' @ BACKEND_IMAGE_NAME @ '':'' @ IMAGE_TAG),
            DockerPush (ECR_URL @ ''/'' @ BACKEND_IMAGE_NAME @ '':'' @ IMAGE_TAG)]"
proof -
  let ?P = "\<lambda>c. is_tag c \<or> is_push c"
  let ?pre = "[print_status w ''Starting image upload process...'', check_prerequisites w,
               display_image_info w]"
  let ?post = "[print_success w ''All images uploaded successfully!'',
                print_status w ''You can now use these images in your deployment.'']"
  define s0 where "s0 = final (steps ?pre (initial f))"
  define s1 where "s1 = final (build_and_upload_frontend w s0)"
  define s2 where "s2 = final (build_and_upload_backend w s1)"
  have pre: "steps ?pre (initial f) = Cont s0"
    unfolding s0_def using assms(2,3)
    by (simp add: check_prerequisites_eq display_image_info_eq print_status_plain emit_def)
  have t0: "trace s0 = []"
    unfolding s0_def using assms(2,3)
    by (simp add: check_prerequisites_eq display_image_info_eq print_status_plain emit_def
          initial_def)
  have fe: "build_and_upload_frontend w s0 = Cont s1"
    unfolding s1_def by (rule frontend_succeeds(1) [OF assms(4,6)])
  have be: "build_and_upload_backend w s1 = Cont s2"
    unfolding s2_def by (rule backend_succeeds(1) [OF assms(5,6)])
  have t2: "filter ?P (trace s2) =
           [DockerTag (FRONTEND_IMAGE_NAME @ '':'' @ IMAGE_TAG)
              (ECR_URL @ ''/'' @ FRONTEND_IMAGE_NAME @ '':'' @ IMAGE_TAG),
            DockerPush (ECR_URL @ ''/'' @ FRONTEND_IMAGE_NAME @ '':'' @ IMAGE_TAG),
            DockerTag (BACKEND_IMAGE_NAME @ '':'' @ IMAGE_TAG)
              (ECR_URL @ ''/'' @ BACKEND_IMAGE_NAME @ '':'' @ IMAGE_TAG),
            DockerPush (ECR_URL @ ''/'' @ BACKEND_IMAGE_NAME @ '':'' @ IMAGE_TAG)]"
    unfolding s2_def s1_def
    by (simp add: backend_succeeds(2) [OF assms(5,6)] frontend_succeeds(2) [OF assms(4,6)] t0)
  have "steps (?pre @ [build_and_upload_frontend w, build_and_upload_backend w]) (initial f) =
        steps [build_and_upload_frontend w, build_and_upload_backend w] s0"
    by (rule steps_after [OF pre])
  then have work: "steps [print_status w ''Starting image upload process...'',
        check_prerequisites w, display_image_info w,
        build_and_upload_frontend w, build_and_upload_backend w] (initial f) = Cont s2"
    using fe be by simp
  have post: "\<And>g. g \<in> set ?post \<Longrightarrow> \<exists>l. g = emit l"
    by (auto simp add: print_status_plain print_success_plain)
  from branch_cont [OF post work]
  obtain u where u: "dispatch w prog args (initial f) = Cont u"
      "trace u = trace s2 @ cleanup_calls"
    unfolding all_branch [OF assms(1)] by blast
  have "filter ?P cleanup_calls = []"
    by (simp add: cleanup_calls_def)
  with u t2 show ?thesis
    by (simp add: fst_release_sh snd_release_sh)
qed

text \<open>The theorem in a world where every program but \<^verbatim>\<open>docker rmi\<close> succeeds.\<close>

theorem full_success_run_witness:
  "fst (release_sh rmi_fails ''./release.sh'' [] env_present) = 0
   \<and> filter (\<lambda>c. is_tag c \<or> is_push c)
        (trace (snd (release_sh rmi_fails ''./release.sh'' [] env_present))) =
       [DockerTag ''agents/frontend:latest''
          ''654553612832.dkr.ecr.eu-central-1.amazonaws.com/agents/frontend:latest'',
        DockerPush ''654553612832.dkr.ecr.eu-central-1.amazonaws.com/agents/frontend:latest'',
        DockerTag ''agents/backend:latest''
          ''654553612832.dkr.ecr.eu-central-1.amazonaws.com/agents/backend:latest'',
        DockerPush ''654553612832.dkr.ecr.eu-central-1.amazonaws.com/agents/backend:latest'']"
proof -
  have mode: "arg1 [] = ''''" by (simp add: arg1_def)
  have tools: "installed rmi_fails ''docker''" "installed rmi_fails ''aws''"
    by (simp_all add: rmi_fails_def all_ok_def)
  have dirs: "has_dir rmi_fails Frontend" "has_dir rmi_fails Backend"
    by (simp_all add: rmi_fails_def all_ok_def)
  have ok: "\<forall>h c. \<not> is_rmi c \<and> c \<noteq> AwsGetLoginPassword AWS_REGION \<longrightarrow>
      status rmi_fails h c = 0"
    by (simp add: rmi_fails_def all_ok_def)
  show ?thesis
    using full_success_run [OF mode tools dirs ok, of "''./release.sh''" env_present]
    by (simp add: config_defs)
qed

section \<open>The cleanup\<close>

text \<open>
  C7. The cleanup never ends the script: whatever \<^verbatim>\<open>docker rmi\<close> returns, the step lets
  the script continue. And the exit status of a run, in every mode, does not depend on
  what \<^verbatim>\<open>docker rmi\<close> does: two worlds that agree on everything else (installed tools,
  directories, status and effect of every other program) give the same exit status, be
  it 0 or the status of a failed step.
\<close>

theorem cleanup_never_changes_outcome:
  "cleanup_local_images w s = Cont (final (cleanup_local_images w s))
   \<and> (installed w' = installed w \<and> has_dir w' = has_dir w \<and>
       (\<forall>h c. \<not> is_rmi c \<longrightarrow>
          status w' h c = status w h c \<and> effect w' h c = effect w h c) \<longrightarrow>
      fst (release_sh w' prog args f) = fst (release_sh w prog args f))"
  using cleanup_cont [of w s] code_of_run [of w' w prog args "initial f"]
  by (simp add: fst_release_sh)

text \<open>
  The theorem for a successful run (every \<^verbatim>\<open>docker rmi\<close> failing or none) and for a run
  whose frontend build fails.
\<close>

theorem cleanup_never_changes_outcome_witness:
  "fst (release_sh rmi_fails ''./release.sh'' [] env_present) = 0
   \<and> fst (release_sh (builds_fail\<lparr>status := (\<lambda>h c. if is_build c \<or> is_rmi c then 1 else 0)\<rparr>)
        ''./release.sh'' [] env_present) = 1"
proof -
  have same: "installed rmi_fails = installed all_ok \<and> has_dir rmi_fails = has_dir all_ok \<and>
       (\<forall>h c. \<not> is_rmi c \<longrightarrow>
          status rmi_fails h c = status all_ok h c \<and> effect rmi_fails h c = effect all_ok h c)"
    by (simp add: rmi_fails_def all_ok_def)
  let ?w = "builds_fail\<lparr>status := (\<lambda>h c. if is_build c \<or> is_rmi c then 1 else 0)\<rparr>"
  have same': "installed ?w = installed builds_fail \<and> has_dir ?w = has_dir builds_fail \<and>
       (\<forall>h c. \<not> is_rmi c \<longrightarrow>
          status ?w h c = status builds_fail h c \<and> effect ?w h c = effect builds_fail h c)"
    by (simp add: builds_fail_def all_ok_def)
  have ok: "fst (release_sh all_ok ''./release.sh'' [] env_present) = 0"
    by (simp add: release_sh_def dispatch_def main_def arg1_def check_prerequisites_eq
          display_image_info_eq build_and_upload_frontend_def build_and_upload_backend_def
          cleanup_local_images_def prim_defs all_ok_def initial_def env_present_def)
  have bad: "fst (release_sh builds_fail ''./release.sh'' [] env_present) = 1"
    by (simp add: release_sh_def dispatch_def main_def arg1_def check_prerequisites_eq
          display_image_info_eq build_and_upload_frontend_def prim_defs builds_fail_def
          all_ok_def initial_def env_present_def)
  show ?thesis
    using cleanup_never_changes_outcome [THEN conjunct2, THEN mp, OF same] ok
      cleanup_never_changes_outcome [THEN conjunct2, THEN mp, OF same'] bad
    by simp
qed

text \<open>
  C10. The cleanup step starts \<^verbatim>\<open>docker rmi\<close> for the same four references, in the same
  order, from whatever state it is entered: the local tag of the frontend and of the
  backend, then the remote tag of each. In each of the three modes that release, these
  four are all the removals of a run that ends with status 0, whichever components that
  run has built; a run that exits earlier has removed nothing.
\<close>

theorem cleanup_removes_fixed_four:
  "trace (final (cleanup_local_images w s)) = trace s @
     [DockerRmi (FRONTEND_IMAGE_NAME @ '':'' @ IMAGE_TAG),
      DockerRmi (BACKEND_IMAGE_NAME @ '':'' @ IMAGE_TAG),
      DockerRmi (ECR_URL @ ''/'' @ FRONTEND_IMAGE_NAME @ '':'' @ IMAGE_TAG),
      DockerRmi (ECR_URL @ ''/'' @ BACKEND_IMAGE_NAME @ '':'' @ IMAGE_TAG)]
   \<and> (arg1 args \<in> {'''', ''--frontend-only'', ''--backend-only''} \<longrightarrow>
        filter is_rmi (trace (snd (release_sh w prog args f))) =
          (if fst (release_sh w prog args f) = 0
           then [DockerRmi (FRONTEND_IMAGE_NAME @ '':'' @ IMAGE_TAG),
                 DockerRmi (BACKEND_IMAGE_NAME @ '':'' @ IMAGE_TAG),
                 DockerRmi (ECR_URL @ ''/'' @ FRONTEND_IMAGE_NAME @ '':'' @ IMAGE_TAG),
                 DockerRmi (ECR_URL @ ''/'' @ BACKEND_IMAGE_NAME @ '':'' @ IMAGE_TAG)]
           else []))"
  using cleanup_trace [of w s] rmi_of_run [of args w prog f]
  by (simp add: fst_release_sh snd_release_sh cleanup_calls_def)

text \<open>The theorem for \<^verbatim>\<open>--backend-only\<close>, where no frontend image has been built.\<close>

theorem cleanup_removes_fixed_four_witness:
  "filter is_rmi (trace (snd (release_sh all_ok ''./release.sh'' [''--backend-only''] env_absent))) =
     [DockerRmi ''agents/frontend:latest'',
      DockerRmi ''agents/backend:latest'',
      DockerRmi ''654553612832.dkr.ecr.eu-central-1.amazonaws.com/agents/frontend:latest'',
      DockerRmi ''654553612832.dkr.ecr.eu-central-1.amazonaws.com/agents/backend:latest'']"
proof -
  have mode: "arg1 [''--backend-only''] \<in> {'''', ''--frontend-only'', ''--backend-only''}"
    by (simp add: arg1_def)
  have ok: "fst (release_sh all_ok ''./release.sh'' [''--backend-only''] env_absent) = 0"
    by (simp add: release_sh_def dispatch_def arg1_def check_prerequisites_eq
          build_and_upload_backend_def cleanup_local_images_def prim_defs all_ok_def initial_def)
  show ?thesis
    using cleanup_removes_fixed_four [where args = "[''--backend-only'']" and w = all_ok
            and prog = "''./release.sh''" and f = env_absent, THEN conjunct2, THEN mp, OF mode] ok
    by (simp add: config_defs)
qed

section \<open>Arguments that release nothing\<close>

text \<open>
  The error line of the default branch, \<^verbatim>\<open>print_error "Unknown option: $1"\<close>: the escapes
  of the argument are expanded.
\<close>

lemma unknown_option_line:
  "print_error w (''Unknown option: '' @ a) =
     emit (case echo_e (unicode w) a of
             (t, stop) \<Rightarrow> if stop then Unterminated (Error (''Unknown option: '' @ t))
                         else Error (''Unknown option: '' @ t))"
  using echo_e_prefix [of "''Unknown option: ''" "unicode w" a]
  by (cases "echo_e (unicode w) a") (simp add: print_error_def print_with_def)

text \<open>
  What holds of these arguments. With \<^verbatim>\<open>--help\<close> or \<^verbatim>\<open>-h\<close> as first argument the script
  prints the usage text and exits with status 0. With a first argument that is none of
  the four options (and not empty) it prints an error line, then a hint, and exits with
  status 1; the error line is \<^verbatim>\<open>Unknown option:\<close> followed by the argument with its escapes
  expanded, which is the argument itself when it has no backslash. In both cases no
  program has been started and the files are untouched.
\<close>

lemma help_and_unknown_option:
  "(arg1 args = ''--help'' \<or> arg1 args = ''-h'' \<longrightarrow>
      release_sh w prog args f =
        (0, (initial f)\<lparr>out :=
           [Plain (''Usage: '' @ prog @ '' [OPTION]''),
            Plain '''',
            Plain ''Options:'',
            Plain ''  --frontend-only    Build and upload only the frontend image'',
            Plain ''  --backend-only     Build and upload only the backend image'',
            Plain ''  --help, -h         Show this help message'',
            Plain '''',
            Plain ''Default behavior: Build and upload both frontend and backend images'']\<rparr>))
   \<and> (arg1 args \<notin> {''--frontend-only'', ''--backend-only'', ''--help'', ''-h'', ''''} \<longrightarrow>
      release_sh w prog args f =
        (1, (initial f)\<lparr>out :=
           [case echo_e (unicode w) (arg1 args) of
              (t, stop) \<Rightarrow> if stop then Unterminated (Error (''Unknown option: '' @ t))
                          else Error (''Unknown option: '' @ t),
            Plain ''Use --help for usage information'']\<rparr>))
   \<and> (arg1 args \<notin> {''--frontend-only'', ''--backend-only'', ''--help'', ''-h'', ''''} \<and>
      CHR 0x5C \<notin> set (arg1 args) \<longrightarrow>
      release_sh w prog args f =
        (1, (initial f)\<lparr>out :=
           [Error (''Unknown option: '' @ arg1 args),
            Plain ''Use --help for usage information'']\<rparr>))"
proof (intro conjI impI)
  assume "arg1 args = ''--help'' \<or> arg1 args = ''-h''"
  then show "release_sh w prog args f =
        (0, (initial f)\<lparr>out :=
           [Plain (''Usage: '' @ prog @ '' [OPTION]''),
            Plain '''',
            Plain ''Options:'',
            Plain ''  --frontend-only    Build and upload only the frontend image'',
            Plain ''  --backend-only     Build and upload only the backend image'',
            Plain ''  --help, -h         Show this help message'',
            Plain '''',
            Plain ''Default behavior: Build and upload both frontend and backend images'']\<rparr>)"
    by (auto simp add: release_sh_def dispatch_def initial_def echo_def emit_def exit_with_def)
next
  assume a: "arg1 args \<notin> {''--frontend-only'', ''--backend-only'', ''--help'', ''-h'', ''''}"
  have branch: "dispatch w prog args =
      steps [print_error w (''Unknown option: '' @ arg1 args),
             echo ''Use --help for usage information'', exit_with 1]"
    using a by (simp add: dispatch_def Let_def del: steps.simps)
  show "release_sh w prog args f =
        (1, (initial f)\<lparr>out :=
           [case echo_e (unicode w) (arg1 args) of
              (t, stop) \<Rightarrow> if stop then Unterminated (Error (''Unknown option: '' @ t))
                          else Error (''Unknown option: '' @ t),
            Plain ''Use --help for usage information'']\<rparr>)"
    unfolding release_sh_def branch unknown_option_line
    by (simp add: initial_def echo_def emit_def exit_with_def)
next
  assume a: "arg1 args \<notin> {''--frontend-only'', ''--backend-only'', ''--help'', ''-h'', ''''} \<and>
      CHR 0x5C \<notin> set (arg1 args)"
  then have branch: "dispatch w prog args =
      steps [print_error w (''Unknown option: '' @ arg1 args),
             echo ''Use --help for usage information'', exit_with 1]"
    by (simp add: dispatch_def Let_def del: steps.simps)
  have "CHR 0x5C \<notin> set (''Unknown option: '' @ arg1 args)"
    using a by simp
  then have line: "print_error w (''Unknown option: '' @ arg1 args) =
      emit (Error (''Unknown option: '' @ arg1 args))"
    by (rule print_error_plain)
  show "release_sh w prog args f =
        (1, (initial f)\<lparr>out :=
           [Error (''Unknown option: '' @ arg1 args),
            Plain ''Use --help for usage information'']\<rparr>)"
    unfolding release_sh_def branch line
    by (simp add: initial_def echo_def emit_def exit_with_def)
qed

text \<open>
  C5. With \<^verbatim>\<open>--help\<close> or \<^verbatim>\<open>-h\<close> the script prints usage and exits 0, and with any
  unrecognised argument it should print a diagnostic naming that argument and exit
  non-zero, without build or push. The script misses the last part for arguments with a
  backslash: line 208 hands the argument to \<^verbatim>\<open>echo -e\<close>, which expands its escapes. For the
  argument \<^verbatim>\<open>\c--bogus\<close> the error line stops after \<^verbatim>\<open>Unknown option: \<close>: the argument is
  not printed, nor the newline, so the hint continues the same line. The exit status is 1
  and no program is started.
\<close>

theorem unknown_option_escape_is_expanded:
  "release_sh all_ok ''./release.sh'' [CHR 0x5C # ''c--bogus''] env_present =
     (1, \<lparr>cwd = Root, fs = env_present, trace = [], out =
           [Unterminated (Error ''Unknown option: ''),
            Plain ''Use --help for usage information'']\<rparr>)"
  by (simp add: release_sh_def dispatch_def arg1_def print_error_def print_with_def
        echo_def emit_def exit_with_def initial_def)

end
